theory Spec2Isabelle
  imports Main
begin

section \<open>The data model of package fsm\<close>

text \<open>
  \<^verbatim>\<open>type State string\<close>, \<^verbatim>\<open>type Symbol string\<close>: Go strings are byte sequences, and so
  are HOL strings. A \<^verbatim>\<open>TransitionKey\<close> is a struct of a state and a symbol.
\<close>

type_synonym State = string
type_synonym Symbol = string

record TransitionKey =
  State :: State
  Symbol :: Symbol

text \<open>
  The struct \<^verbatim>\<open>FSM\<close>. A Go \<^verbatim>\<open>map[K]V\<close> is a finite partial map; the three sets
  are maps to \<^verbatim>\<open>bool\<close>, as in the source. The zero value of a string field is the
  empty string.
\<close>

record FSM =
  states :: "State \<rightharpoonup> bool"
  alphabet :: "Symbol \<rightharpoonup> bool"
  initialState :: State
  finalStates :: "State \<rightharpoonup> bool"
  transitions :: "TransitionKey \<rightharpoonup> State"
  currentState :: State

text \<open>
  Reading \<^verbatim>\<open>m[k]\<close> from a \<^verbatim>\<open>map[K]bool\<close> gives \<^verbatim>\<open>false\<close> for an absent key.
\<close>

definition lookup :: "('k \<rightharpoonup> bool) \<Rightarrow> 'k \<Rightarrow> bool" where
  "lookup m k = (case m k of None \<Rightarrow> False | Some v \<Rightarrow> v)"

text \<open>
  A \<^verbatim>\<open>Builder\<close> holds a pointer to an \<^verbatim>\<open>FSM\<close>, and \<^verbatim>\<open>Build\<close> hands that very pointer
  out, so the FSM objects live in a store: addresses are numbers, every address holds an
  FSM value, and \<open>next_addr\<close> is the first address not yet allocated. A builder whose
  pointer is \<^verbatim>\<open>nil\<close> (the zero \<^verbatim>\<open>Builder\<close>, which no function of the package
  returns and on which every method panics) is not represented.
\<close>

type_synonym addr = nat

record heap =
  cells :: "addr \<Rightarrow> FSM"
  next_addr :: addr

record Builder =
  fsm :: addr

definition deref :: "heap \<Rightarrow> addr \<Rightarrow> FSM" where
  "deref h p = cells h p"

definition modify :: "addr \<Rightarrow> (FSM \<Rightarrow> FSM) \<Rightarrow> heap \<Rightarrow> heap" where
  "modify p g h = h\<lparr>cells := (cells h)(p := g (cells h p))\<rparr>"

section \<open>Errors\<close>

text \<open>
  Every error of the package is made by \<^verbatim>\<open>fmt.Errorf\<close> from one of eleven format
  strings. There is one constructor for each format, carrying the labels the format
  prints; \<open>Error\<close> is the method \<^verbatim>\<open>err.Error()\<close>, the message. The letter delta of the
  source is the two bytes \<open>0xCE 0xB4\<close> in UTF-8.
\<close>

datatype error =
    StateNotInStateSet State
  | NextStateNotInStateSet State
  | SymbolNotInAlphabet Symbol
  | TransitionAlreadyDefined State Symbol
  | NoStates
  | NoSymbols
  | NoInitialState
  | NoFinalStates
  | InitialStateNotInStateSet
  | TransitionNotDefined State Symbol
  | NoTransitionDefined State Symbol

definition delta :: string where
  "delta = [CHR 0xCE, CHR 0xB4]"

fun Error :: "error \<Rightarrow> string" where
  "Error (StateNotInStateSet state) = ''state '' @ state @ '' not in state set''"
| "Error (NextStateNotInStateSet nextState) =
     ''next state '' @ nextState @ '' not in state set''"
| "Error (SymbolNotInAlphabet symbol) = ''symbol '' @ symbol @ '' not in alphabet''"
| "Error (TransitionAlreadyDefined state symbol) =
     ''transition '' @ delta @ ''('' @ state @ '', '' @ symbol @ '') already defined''"
| "Error NoStates = ''FSM must have at least one state''"
| "Error NoSymbols = ''FSM must have at least one symbol in alphabet''"
| "Error NoInitialState = ''FSM must have an initial state''"
| "Error NoFinalStates = ''FSM must have at least one final state''"
| "Error InitialStateNotInStateSet = ''initial state must be in state set''"
| "Error (TransitionNotDefined state symbol) =
     ''transition '' @ delta @ ''('' @ state @ '', '' @ symbol @ '') is not defined''"
| "Error (NoTransitionDefined state symbol) =
     ''no transition defined for '' @ delta @ ''('' @ state @ '', '' @ symbol @ '')''"

section \<open>The builder\<close>

text \<open>
  Every method of the builder returns its receiver; the model returns the new store, and
  the error where the method has one (\<open>None\<close> is \<^verbatim>\<open>nil\<close>).
\<close>

definition new_FSM :: FSM where
  "new_FSM = \<lparr>states = Map.empty, alphabet = Map.empty, initialState = [],
     finalStates = Map.empty, transitions = Map.empty, currentState = []\<rparr>"

definition NewBuilder :: "heap \<Rightarrow> heap \<times> Builder" where
  "NewBuilder h =
     (h\<lparr>cells := (cells h)(next_addr h := new_FSM), next_addr := Suc (next_addr h)\<rparr>,
      \<lparr>fsm = next_addr h\<rparr>)"

fun AddStates :: "Builder \<Rightarrow> State list \<Rightarrow> heap \<Rightarrow> heap" where
  "AddStates b [] h = h"
| "AddStates b (state # rest) h =
     AddStates b rest (modify (fsm b) (\<lambda>f. f\<lparr>states := (states f)(state \<mapsto> True)\<rparr>) h)"

fun AddSymbols :: "Builder \<Rightarrow> Symbol list \<Rightarrow> heap \<Rightarrow> heap" where
  "AddSymbols b [] h = h"
| "AddSymbols b (symbol # rest) h =
     AddSymbols b rest (modify (fsm b) (\<lambda>f. f\<lparr>alphabet := (alphabet f)(symbol \<mapsto> True)\<rparr>) h)"

definition SetInitialState :: "Builder \<Rightarrow> State \<Rightarrow> heap \<Rightarrow> heap \<times> error option" where
  "SetInitialState b state h =
     (if \<not> lookup (states (deref h (fsm b))) state
      then (h, Some (StateNotInStateSet state))
      else (modify (fsm b) (\<lambda>f. f\<lparr>initialState := state\<rparr>) h, None))"

fun AddFinalStates :: "Builder \<Rightarrow> State list \<Rightarrow> heap \<Rightarrow> heap \<times> error option" where
  "AddFinalStates b [] h = (h, None)"
| "AddFinalStates b (state # rest) h =
     (if \<not> lookup (states (deref h (fsm b))) state
      then (h, Some (StateNotInStateSet state))
      else AddFinalStates b rest
             (modify (fsm b) (\<lambda>f. f\<lparr>finalStates := (finalStates f)(state \<mapsto> True)\<rparr>) h))"

definition AddTransition ::
  "Builder \<Rightarrow> State \<Rightarrow> Symbol \<Rightarrow> State \<Rightarrow> heap \<Rightarrow> heap \<times> error option" where
  "AddTransition b state symbol nextState h =
     (if \<not> lookup (states (deref h (fsm b))) state
      then (h, Some (StateNotInStateSet state))
      else if \<not> lookup (states (deref h (fsm b))) nextState
      then (h, Some (NextStateNotInStateSet nextState))
      else if \<not> lookup (alphabet (deref h (fsm b))) symbol
      then (h, Some (SymbolNotInAlphabet symbol))
      else let key = \<lparr>State = state, Symbol = symbol\<rparr> in
        if transitions (deref h (fsm b)) key \<noteq> None
        then (h, Some (TransitionAlreadyDefined state symbol))
        else (modify (fsm b) (\<lambda>f. f\<lparr>transitions := (transitions f)(key \<mapsto> nextState)\<rparr>) h,
              None))"

text \<open>
  \<^verbatim>\<open>AddTransitions\<close> ranges over a slice of maps. Go visits the entries of a map in an
  order it does not specify, so each map of the batch is given as the list of its entries
  in the order the \<^verbatim>\<open>range\<close> loop visits them.
\<close>

fun AddTransitionsGroup ::
  "Builder \<Rightarrow> (TransitionKey \<times> State) list \<Rightarrow> heap \<Rightarrow> heap \<times> error option" where
  "AddTransitionsGroup b [] h = (h, None)"
| "AddTransitionsGroup b ((key, nextState) # rest) h =
     (case AddTransition b (State key) (Symbol key) nextState h of
        (h', Some err) \<Rightarrow> (h', Some err)
      | (h', None) \<Rightarrow> AddTransitionsGroup b rest h')"

fun AddTransitions ::
  "Builder \<Rightarrow> (TransitionKey \<times> State) list list \<Rightarrow> heap \<Rightarrow> heap \<times> error option" where
  "AddTransitions b [] h = (h, None)"
| "AddTransitions b (transition # rest) h =
     (case AddTransitionsGroup b transition h of
        (h', Some err) \<Rightarrow> (h', Some err)
      | (h', None) \<Rightarrow> AddTransitions b rest h')"

text \<open>
  \<^verbatim>\<open>Build\<close> ranges over the maps \<^verbatim>\<open>states\<close> and \<^verbatim>\<open>alphabet\<close>. The order of each
  \<^verbatim>\<open>range\<close> is Go's choice, so it is a parameter here: \<open>ss\<close> is the order in which
  the outer loop visits the states, and \<open>os state\<close> is the order in which the inner loop
  visits the symbols during the iteration for \<open>state\<close>. An order of a map lists every key
  of the map once (\<open>range_order\<close>).
\<close>

definition range_order :: "('k \<rightharpoonup> 'v) \<Rightarrow> 'k list \<Rightarrow> bool" where
  "range_order m ks \<longleftrightarrow> distinct ks \<and> set ks = dom m"

fun Build_symbols :: "(TransitionKey \<rightharpoonup> State) \<Rightarrow> State \<Rightarrow> Symbol list \<Rightarrow> error option" where
  "Build_symbols tr state [] = None"
| "Build_symbols tr state (symbol # rest) =
     (if tr \<lparr>State = state, Symbol = symbol\<rparr> = None
      then Some (TransitionNotDefined state symbol)
      else Build_symbols tr state rest)"

fun Build_states ::
  "(TransitionKey \<rightharpoonup> State) \<Rightarrow> (State \<Rightarrow> Symbol list) \<Rightarrow> State list \<Rightarrow> error option" where
  "Build_states tr os [] = None"
| "Build_states tr os (state # rest) =
     (case Build_symbols tr state (os state) of
        Some err \<Rightarrow> Some err
      | None \<Rightarrow> Build_states tr os rest)"

text \<open>
  \<^verbatim>\<open>Build\<close> returns \<^verbatim>\<open>(nil, err)\<close>, here \<open>Inl err\<close>, or \<^verbatim>\<open>(b.fsm, nil)\<close>, here
  \<open>Inr (fsm b)\<close>: the pointer the builder itself holds.
\<close>

definition Build ::
  "State list \<Rightarrow> (State \<Rightarrow> Symbol list) \<Rightarrow> Builder \<Rightarrow> heap \<Rightarrow> heap \<times> (error + addr)" where
  "Build ss os b h =
     (let f = deref h (fsm b) in
      if dom (states f) = {} then (h, Inl NoStates)
      else if dom (alphabet f) = {} then (h, Inl NoSymbols)
      else if initialState f = [] then (h, Inl NoInitialState)
      else if dom (finalStates f) = {} then (h, Inl NoFinalStates)
      else if \<not> lookup (states f) (initialState f) then (h, Inl InitialStateNotInStateSet)
      else case Build_states (transitions f) os ss of
        Some err \<Rightarrow> (h, Inl err)
      | None \<Rightarrow> (modify (fsm b) (\<lambda>f. f\<lparr>currentState := initialState f\<rparr>) h, Inr (fsm b)))"

section \<open>The automaton\<close>

definition Reset :: "addr \<Rightarrow> heap \<Rightarrow> heap" where
  "Reset p h = modify p (\<lambda>f. f\<lparr>currentState := initialState f\<rparr>) h"

definition CurrentState :: "addr \<Rightarrow> heap \<Rightarrow> State" where
  "CurrentState p h = currentState (deref h p)"

definition step :: "addr \<Rightarrow> Symbol \<Rightarrow> heap \<Rightarrow> heap \<times> error option" where
  "step p symbol h =
     (if \<not> lookup (alphabet (deref h p)) symbol
      then (h, Some (SymbolNotInAlphabet symbol))
      else case transitions (deref h p) \<lparr>State = currentState (deref h p), Symbol = symbol\<rparr> of
        None \<Rightarrow> (h, Some (NoTransitionDefined (currentState (deref h p)) symbol))
      | Some nextState \<Rightarrow> (modify p (\<lambda>f. f\<lparr>currentState := nextState\<rparr>) h, None))"

text \<open>
  \<^verbatim>\<open>for _, char := range input\<close> decodes the string as UTF-8, one code point (rune) at a
  time; a byte that starts no valid encoding gives the rune \<open>0xFFFD\<close> and the loop
  advances by one byte. \<^verbatim>\<open>Symbol(char)\<close> converts the rune to its UTF-8 encoding.
  \<open>decoderune\<close> returns the rune at the head of a string and the number of bytes it takes;
  \<open>encoderune\<close> is the conversion of a rune to a string.
\<close>

definition runeError :: nat where
  "runeError = 0xFFFD"

definition contb :: "char \<Rightarrow> bool" where
  "contb c \<longleftrightarrow> (0x80::nat) \<le> of_char c \<and> of_char c \<le> (0xBF::nat)"

definition lowbits :: "char \<Rightarrow> nat" where
  "lowbits c = of_char c mod 64"

fun decoderune :: "string \<Rightarrow> nat \<times> nat" where
  "decoderune [] = (runeError, 1)"
| "decoderune (c0 # s) =
     (let b0 = (of_char c0 :: nat) in
      if b0 < 0x80 then (b0, 1)
      else if 0xC0 \<le> b0 \<and> b0 < 0xE0 then
        (case s of
           c1 # _ \<Rightarrow>
             (let r = (b0 mod 32) * 64 + lowbits c1 in
              if contb c1 \<and> 0x7F < r then (r, 2) else (runeError, 1))
         | _ \<Rightarrow> (runeError, 1))
      else if 0xE0 \<le> b0 \<and> b0 < 0xF0 then
        (case s of
           c1 # c2 # _ \<Rightarrow>
             (let r = (b0 mod 16) * 4096 + lowbits c1 * 64 + lowbits c2 in
              if contb c1 \<and> contb c2 \<and> 0x7FF < r \<and> \<not> (0xD800 \<le> r \<and> r \<le> 0xDFFF)
              then (r, 3) else (runeError, 1))
         | _ \<Rightarrow> (runeError, 1))
      else if 0xF0 \<le> b0 \<and> b0 < 0xF8 then
        (case s of
           c1 # c2 # c3 # _ \<Rightarrow>
             (let r = (b0 mod 8) * 262144 + lowbits c1 * 4096 + lowbits c2 * 64 + lowbits c3 in
              if contb c1 \<and> contb c2 \<and> contb c3 \<and> 0xFFFF < r \<and> r \<le> 0x10FFFF
              then (r, 4) else (runeError, 1))
         | _ \<Rightarrow> (runeError, 1))
      else (runeError, 1))"

definition encoderune :: "nat \<Rightarrow> string" where
  "encoderune r =
     (if r \<le> 0x7F then [char_of r]
      else if r \<le> 0x7FF then [char_of (0xC0 + r div 64), char_of (0x80 + r mod 64)]
      else if 0x10FFFF < r \<or> (0xD800 \<le> r \<and> r \<le> 0xDFFF)
      then [char_of (0xEF::nat), char_of (0xBF::nat), char_of (0xBD::nat)]
      else if r \<le> 0xFFFF
      then [char_of (0xE0 + r div 4096), char_of (0x80 + (r div 64) mod 64),
            char_of (0x80 + r mod 64)]
      else [char_of (0xF0 + r div 262144), char_of (0x80 + (r div 4096) mod 64),
            char_of (0x80 + (r div 64) mod 64), char_of (0x80 + r mod 64)])"

fun range_string :: "string \<Rightarrow> Symbol list" where
  "range_string [] = []"
| "range_string (c0 # s) =
     encoderune (fst (decoderune (c0 # s)))
       # range_string (drop (snd (decoderune (c0 # s)) - 1) s)"

fun ProcessSymbols :: "addr \<Rightarrow> Symbol list \<Rightarrow> heap \<Rightarrow> heap \<times> error option" where
  "ProcessSymbols p [] h = (h, None)"
| "ProcessSymbols p (symbol # rest) h =
     (case step p symbol h of
        (h', Some err) \<Rightarrow> (h', Some err)
      | (h', None) \<Rightarrow> ProcessSymbols p rest h')"

definition ProcessString :: "addr \<Rightarrow> string \<Rightarrow> heap \<Rightarrow> heap \<times> error option" where
  "ProcessString p input h = ProcessSymbols p (range_string input) h"

definition IsFinalState :: "addr \<Rightarrow> heap \<Rightarrow> bool" where
  "IsFinalState p h = lookup (finalStates (deref h p)) (currentState (deref h p))"

definition ProcessInput :: "addr \<Rightarrow> string \<Rightarrow> heap \<Rightarrow> heap \<times> bool \<times> error option" where
  "ProcessInput p input h =
     (case ProcessString p input (Reset p h) of
        (h', Some err) \<Rightarrow> (h', False, Some err)
      | (h', None) \<Rightarrow> (h', IsFinalState p h', None))"

section \<open>Sequences of calls\<close>

text \<open>
  The six mutating methods of the builder as data, so that a sequence of calls is a list.
  A caller may ignore the error a method returns and go on: \<open>apply_op\<close> keeps the store
  the method leaves.
\<close>

datatype builder_op =
    OpAddStates "State list"
  | OpAddSymbols "Symbol list"
  | OpSetInitialState State
  | OpAddFinalStates "State list"
  | OpAddTransition State Symbol State
  | OpAddTransitions "(TransitionKey \<times> State) list list"

fun apply_op :: "Builder \<Rightarrow> builder_op \<Rightarrow> heap \<Rightarrow> heap" where
  "apply_op b (OpAddStates xs) h = AddStates b xs h"
| "apply_op b (OpAddSymbols xs) h = AddSymbols b xs h"
| "apply_op b (OpSetInitialState q) h = fst (SetInitialState b q h)"
| "apply_op b (OpAddFinalStates xs) h = fst (AddFinalStates b xs h)"
| "apply_op b (OpAddTransition s a t) h = fst (AddTransition b s a t h)"
| "apply_op b (OpAddTransitions ts) h = fst (AddTransitions b ts h)"

fun apply_ops :: "Builder \<Rightarrow> builder_op list \<Rightarrow> heap \<Rightarrow> heap" where
  "apply_ops b [] h = h"
| "apply_ops b (x # xs) h = apply_ops b xs (apply_op b x h)"

text \<open>
  Every call a client can make on a builder and on the automaton it hands out: the
  automaton's methods run on the builder's own FSM, the only pointer \<^verbatim>\<open>Build\<close> returns.
\<close>

datatype call =
    CallOp builder_op
  | CallBuild "State list" "State \<Rightarrow> Symbol list"
  | CallReset
  | CallStep Symbol
  | CallProcessString string
  | CallProcessInput string

fun exec_call :: "Builder \<Rightarrow> call \<Rightarrow> heap \<Rightarrow> heap" where
  "exec_call b (CallOp x) h = apply_op b x h"
| "exec_call b (CallBuild ss os) h = fst (Build ss os b h)"
| "exec_call b CallReset h = Reset (fsm b) h"
| "exec_call b (CallStep a) h = fst (step (fsm b) a h)"
| "exec_call b (CallProcessString w) h = fst (ProcessString (fsm b) w h)"
| "exec_call b (CallProcessInput w) h = fst (ProcessInput (fsm b) w h)"

fun exec_calls :: "Builder \<Rightarrow> call list \<Rightarrow> heap \<Rightarrow> heap" where
  "exec_calls b [] h = h"
| "exec_calls b (c # cs) h = exec_calls b cs (exec_call b c h)"

text \<open>
  The stores a program can be in with a builder \<open>b\<close>: \<open>b\<close> came from \<^verbatim>\<open>NewBuilder\<close>,
  then any calls were made on it, and anything may have happened to the rest of the store
  as long as the FSM of \<open>b\<close> was left alone (the package hands out no other pointer to it).
\<close>

inductive reachable :: "heap \<Rightarrow> Builder \<Rightarrow> bool" where
  reachable_new: "NewBuilder h0 = (h, b) \<Longrightarrow> reachable h b"
| reachable_call: "reachable h b \<Longrightarrow> reachable (exec_call b c h) b"
| reachable_other: "reachable h b \<Longrightarrow> deref h' (fsm b) = deref h (fsm b) \<Longrightarrow> reachable h' b"

text \<open>
  What every reachable FSM satisfies: the three sets hold only \<^verbatim>\<open>true\<close>, and every
  transition leads to a state of the state set.
\<close>

definition only_true :: "('k \<rightharpoonup> bool) \<Rightarrow> bool" where
  "only_true m \<longleftrightarrow> (\<forall>k. m k \<noteq> Some False)"

definition fsm_inv :: "FSM \<Rightarrow> bool" where
  "fsm_inv f \<longleftrightarrow>
     only_true (states f) \<and> only_true (alphabet f) \<and> only_true (finalStates f) \<and>
     (\<forall>k t. transitions f k = Some t \<longrightarrow> lookup (states f) t)"

section \<open>The programs of the repository\<close>

text \<open>
  \<^verbatim>\<open>main.go\<close> builds the modulo-three automaton: states S0, S1, S2, symbols 0 and 1,
  initial state S0, every state final, and six transitions, each in a map of its own.
  \<open>main_builder\<close> is the store and the builder just before \<^verbatim>\<open>Build\<close>, started in the
  store \<open>h0\<close>.
\<close>

definition empty_heap :: heap where
  "empty_heap = \<lparr>cells = (\<lambda>p. new_FSM), next_addr = 0\<rparr>"

definition main_transitions :: "(TransitionKey \<times> State) list list" where
  "main_transitions =
     [[(\<lparr>State = ''S0'', Symbol = ''0''\<rparr>, ''S0'')],
      [(\<lparr>State = ''S0'', Symbol = ''1''\<rparr>, ''S1'')],
      [(\<lparr>State = ''S1'', Symbol = ''0''\<rparr>, ''S2'')],
      [(\<lparr>State = ''S1'', Symbol = ''1''\<rparr>, ''S0'')],
      [(\<lparr>State = ''S2'', Symbol = ''0''\<rparr>, ''S1'')],
      [(\<lparr>State = ''S2'', Symbol = ''1''\<rparr>, ''S2'')]]"

definition main_calls :: "call list" where
  "main_calls =
     [CallOp (OpAddStates [''S0'', ''S1'', ''S2'']),
      CallOp (OpAddSymbols [''0'', ''1'']),
      CallOp (OpSetInitialState ''S0''),
      CallOp (OpAddFinalStates [''S0'', ''S1'', ''S2'']),
      CallOp (OpAddTransitions main_transitions)]"

definition main_builder :: Builder where
  "main_builder = snd (NewBuilder empty_heap)"

definition main_heap :: heap where
  "main_heap = exec_calls main_builder main_calls (fst (NewBuilder empty_heap))"

definition main_states :: "State list" where
  "main_states = [''S0'', ''S1'', ''S2'']"

definition main_symbols :: "State \<Rightarrow> Symbol list" where
  "main_symbols state = [''0'', ''1'']"

definition moduloThreeAutomaton :: "heap \<times> (error + addr)" where
  "moduloThreeAutomaton = Build main_states main_symbols main_builder main_heap"

text \<open>
  The automaton of the golden scenario, by its five components.
\<close>

definition moduloThree :: "FSM \<Rightarrow> bool" where
  "moduloThree f \<longleftrightarrow>
     states f = [''S0'' \<mapsto> True, ''S1'' \<mapsto> True, ''S2'' \<mapsto> True] \<and>
     alphabet f = [''0'' \<mapsto> True, ''1'' \<mapsto> True] \<and>
     initialState f = ''S0'' \<and>
     finalStates f = [''S0'' \<mapsto> True, ''S1'' \<mapsto> True, ''S2'' \<mapsto> True] \<and>
     transitions f =
       [\<lparr>State = ''S0'', Symbol = ''0''\<rparr> \<mapsto> ''S0'',
        \<lparr>State = ''S0'', Symbol = ''1''\<rparr> \<mapsto> ''S1'',
        \<lparr>State = ''S1'', Symbol = ''0''\<rparr> \<mapsto> ''S2'',
        \<lparr>State = ''S1'', Symbol = ''1''\<rparr> \<mapsto> ''S0'',
        \<lparr>State = ''S2'', Symbol = ''0''\<rparr> \<mapsto> ''S1'',
        \<lparr>State = ''S2'', Symbol = ''1''\<rparr> \<mapsto> ''S2'']"

text \<open>
  The switch of \<^verbatim>\<open>main.go\<close> on the current state: the index of a state. The number a
  string of binary digits denotes, most significant digit first.
\<close>

definition stateIndex :: "State \<Rightarrow> nat option" where
  "stateIndex s =
     (if s = ''S0'' then Some 0 else if s = ''S1'' then Some 1
      else if s = ''S2'' then Some 2 else None)"

definition binary :: "string \<Rightarrow> bool" where
  "binary w \<longleftrightarrow> set w \<subseteq> {CHR ''0'', CHR ''1''}"

definition binval :: "string \<Rightarrow> nat" where
  "binval w = foldl (\<lambda>n c. 2 * n + (if c = CHR ''1'' then 1 else 0)) 0 w"

text \<open>
  The state with index \<open>n mod 3\<close>.
\<close>

definition mod3_state :: "nat \<Rightarrow> State" where
  "mod3_state n = (if n mod 3 = 0 then ''S0'' else if n mod 3 = 1 then ''S1'' else ''S2'')"

text \<open>
  The builders of the tests in \<^verbatim>\<open>fsm_test.go\<close>: states q0, q1, q2 over the symbols 0 and
  1 with one transition (the duplicate-transition test), and the one-state builder that
  lacks the transition on 1 (the missing-transition test).
\<close>

definition test_calls :: "call list" where
  "test_calls =
     [CallOp (OpAddStates [''q0'', ''q1'', ''q2'']),
      CallOp (OpAddSymbols [''0'', ''1'']),
      CallOp (OpSetInitialState ''q0''),
      CallOp (OpAddFinalStates [''q0'', ''q1'']),
      CallOp (OpAddTransition ''q0'' ''0'' ''q1'')]"

definition test_heap :: heap where
  "test_heap = exec_calls main_builder test_calls (fst (NewBuilder empty_heap))"




text \<open>
  A builder with the one state whose label is the empty string, and no symbol.
\<close>

definition blank_heap :: heap where
  "blank_heap = AddStates main_builder [[]] (fst (NewBuilder empty_heap))"

definition blank_states :: "State list" where
  "blank_states = [[]]"

definition no_symbols :: "State \<Rightarrow> Symbol list" where
  "no_symbols state = []"

text \<open>
  The automaton of \<^verbatim>\<open>TestFSMOperations\<close>: states q0 and q1 over the symbols a and b,
  initial state q0, and q1 the only final state.
\<close>

definition ops_transitions :: "(TransitionKey \<times> State) list list" where
  "ops_transitions =
     [[(\<lparr>State = ''q0'', Symbol = ''a''\<rparr>, ''q1'')],
      [(\<lparr>State = ''q0'', Symbol = ''b''\<rparr>, ''q0'')],
      [(\<lparr>State = ''q1'', Symbol = ''a''\<rparr>, ''q1'')],
      [(\<lparr>State = ''q1'', Symbol = ''b''\<rparr>, ''q0'')]]"

definition ops_calls :: "call list" where
  "ops_calls =
     [CallOp (OpAddStates [''q0'', ''q1'']),
      CallOp (OpAddSymbols [''a'', ''b'']),
      CallOp (OpSetInitialState ''q0''),
      CallOp (OpAddFinalStates [''q1'']),
      CallOp (OpAddTransitions ops_transitions)]"

definition ops_heap :: heap where
  "ops_heap = exec_calls main_builder ops_calls (fst (NewBuilder empty_heap))"

definition ops_states :: "State list" where
  "ops_states = [''q0'', ''q1'']"

definition ops_symbols :: "State \<Rightarrow> Symbol list" where
  "ops_symbols state = [''a'', ''b'']"

definition opsAutomaton :: "heap \<times> (error + addr)" where
  "opsAutomaton = Build ops_states ops_symbols main_builder ops_heap"

section \<open>Notions the properties are stated with\<close>

text \<open>
  \<open>run p syms h\<close> is the store after \<^verbatim>\<open>step\<close> was called on each symbol of \<open>syms\<close> in
  turn, whatever each call returned.
\<close>

definition run :: "addr \<Rightarrow> Symbol list \<Rightarrow> heap \<Rightarrow> heap" where
  "run p syms h = foldl (\<lambda>h' a. fst (step p a h')) h syms"

text \<open>
  \<open>inserted xs m\<close> is the set \<open>m\<close> after each label of \<open>xs\<close> was inserted.
\<close>

definition inserted :: "'k list \<Rightarrow> ('k \<rightharpoonup> bool) \<Rightarrow> ('k \<rightharpoonup> bool)" where
  "inserted xs m = fold (\<lambda>x m'. m'(x \<mapsto> True)) xs m"

text \<open>
  \<open>extends f f'\<close>: every state, symbol, final state and transition of \<open>f\<close> is one of
  \<open>f'\<close>, with the same target.
\<close>

definition extends :: "FSM \<Rightarrow> FSM \<Rightarrow> bool" where
  "extends f f' \<longleftrightarrow>
     states f \<subseteq>\<^sub>m states f' \<and> alphabet f \<subseteq>\<^sub>m alphabet f' \<and>
     finalStates f \<subseteq>\<^sub>m finalStates f' \<and> transitions f \<subseteq>\<^sub>m transitions f'"

text \<open>
  The transition function is total: every state of the state set has a transition on
  every symbol of the alphabet.
\<close>

definition transitions_total :: "FSM \<Rightarrow> bool" where
  "transitions_total f \<longleftrightarrow>
     (\<forall>s \<in> dom (states f). \<forall>a \<in> dom (alphabet f).
        transitions f \<lparr>State = s, Symbol = a\<rparr> \<noteq> None)"

text \<open>
  The four fields of an automaton that describe its structure.
\<close>

definition structural ::
  "FSM \<Rightarrow> (State \<rightharpoonup> bool) \<times> (Symbol \<rightharpoonup> bool) \<times> (State \<rightharpoonup> bool) \<times> (TransitionKey \<rightharpoonup> State)" where
  "structural f = (states f, alphabet f, finalStates f, transitions f)"

text \<open>
  \<open>grows f f'\<close>: when \<open>f\<close> is as every reachable FSM is, so is \<open>f'\<close>, and \<open>f'\<close> extends
  \<open>f\<close>.
\<close>

definition grows :: "FSM \<Rightarrow> FSM \<Rightarrow> bool" where
  "grows f f' \<longleftrightarrow> (fsm_inv f \<longrightarrow> fsm_inv f' \<and> extends f f')"

section \<open>Auxiliary facts\<close>

subsection \<open>The store\<close>

lemma deref_modify [simp]:
  "deref (modify p g h) q = (if q = p then g (deref h p) else deref h q)"
  by (simp add: deref_def modify_def)

lemma modify_modify [simp]: "modify p g (modify p g' h) = modify p (\<lambda>f. g (g' f)) h"
  by (simp add: modify_def)

lemma modify_id: "g (deref h p) = deref h p \<Longrightarrow> modify p g h = h"
  by (simp add: modify_def deref_def)

lemma modify_cong: "g (deref h p) = g' (deref h p) \<Longrightarrow> modify p g h = modify p g' h"
  by (simp add: modify_def deref_def)

lemma lookup_dom: "lookup m k \<Longrightarrow> k \<in> dom m"
  by (auto simp: lookup_def split: option.splits)

lemma only_true_Some: "only_true m \<Longrightarrow> m k = Some v \<Longrightarrow> v"
  by (cases v) (auto simp: only_true_def)

lemma only_true_lookup: "only_true m \<Longrightarrow> k \<in> dom m \<Longrightarrow> lookup m k"
  by (auto simp: lookup_def dest: only_true_Some)

lemma only_true_upd: "only_true m \<Longrightarrow> only_true (m(k \<mapsto> True))"
  by (simp add: only_true_def)

lemma only_true_map_le: "only_true m \<Longrightarrow> m \<subseteq>\<^sub>m m(k \<mapsto> True)"
  by (auto simp: map_le_def dest: only_true_Some)

subsection \<open>The cursor is all the automaton changes\<close>

lemma step_cursor: "\<exists>c. fst (step p a h) = modify p (\<lambda>f. f\<lparr>currentState := c\<rparr>) h"
proof (cases "snd (step p a h)")
  case None
  then show ?thesis
    by (auto simp: step_def split: if_splits option.splits)
next
  case (Some e)
  then have "fst (step p a h) = h"
    by (auto simp: step_def split: if_splits option.splits)
  moreover have "modify p (\<lambda>f. f\<lparr>currentState := currentState (deref h p)\<rparr>) h = h"
    by (rule modify_id) simp
  ultimately show ?thesis by metis
qed

lemma step_error_unchanged: "step p a h = (h', Some e) \<Longrightarrow> h' = h"
  by (auto simp: step_def split: if_splits option.splits)

lemma ProcessSymbols_cursor:
  "\<exists>c. fst (ProcessSymbols p syms h) = modify p (\<lambda>f. f\<lparr>currentState := c\<rparr>) h"
proof (induction syms arbitrary: h)
  case Nil
  have "modify p (\<lambda>f. f\<lparr>currentState := currentState (deref h p)\<rparr>) h = h"
    by (rule modify_id) simp
  then show ?case by (metis ProcessSymbols.simps(1) fst_conv)
next
  case (Cons a syms)
  obtain h1 r where s: "step p a h = (h1, r)" by (cases "step p a h")
  obtain c where c: "h1 = modify p (\<lambda>f. f\<lparr>currentState := c\<rparr>) h"
    using step_cursor [of p a h] s by auto
  show ?case
  proof (cases r)
    case None
    obtain c' where "fst (ProcessSymbols p syms h1) = modify p (\<lambda>f. f\<lparr>currentState := c'\<rparr>) h1"
      using Cons.IH by blast
    then have "fst (ProcessSymbols p (a # syms) h) = modify p (\<lambda>f. f\<lparr>currentState := c'\<rparr>) h"
      using s None c by simp
    then show ?thesis by blast
  next
    case (Some e)
    then show ?thesis using s c by auto
  qed
qed

lemma Reset_cursor: "Reset p (modify p (\<lambda>f. f\<lparr>currentState := c\<rparr>) h) = Reset p h"
  by (simp add: Reset_def)

lemma ProcessInput_cursor:
  "\<exists>c. fst (ProcessInput p w h) = modify p (\<lambda>f. f\<lparr>currentState := c\<rparr>) h"
proof -
  obtain c where "fst (ProcessSymbols p (range_string w) (Reset p h))
      = modify p (\<lambda>f. f\<lparr>currentState := c\<rparr>) (Reset p h)"
    using ProcessSymbols_cursor by blast
  then have "fst (ProcessInput p w h) = modify p (\<lambda>f. f\<lparr>currentState := c\<rparr>) h"
    by (auto simp: ProcessInput_def ProcessString_def Reset_def split: prod.splits option.splits)
  then show ?thesis by blast
qed

lemma ProcessInput_any_cursor:
  "ProcessInput p w (modify p (\<lambda>f. f\<lparr>currentState := c\<rparr>) h) = ProcessInput p w h"
  by (simp add: ProcessInput_def Reset_cursor)

lemma ProcessInput_twice:
  "ProcessInput p w (modify p (\<lambda>f. f\<lparr>currentState := c\<rparr>) (fst (ProcessInput p w h)))
     = ProcessInput p w h"
proof -
  obtain c' where "fst (ProcessInput p w h) = modify p (\<lambda>f. f\<lparr>currentState := c'\<rparr>) h"
    using ProcessInput_cursor by blast
  then show ?thesis
    by (simp add: ProcessInput_any_cursor)
qed


subsection \<open>Strings of ASCII characters\<close>

lemma encoderune_ascii: "(of_char c :: nat) < 128 \<Longrightarrow> encoderune (of_char c) = [c]"
  by (simp add: encoderune_def)

lemma range_string_ascii:
  "\<forall>c\<in>set s. (of_char c :: nat) < 128 \<Longrightarrow> range_string s = map (\<lambda>c. [c]) s"
  by (induction s) (simp_all add: encoderune_ascii)

declare range_string.simps [simp del]

lemma binary_ascii: "binary w \<Longrightarrow> \<forall>c\<in>set w. (of_char c :: nat) < 128"
  by (auto simp: binary_def)

subsection \<open>Processing symbols one by one\<close>

lemma run_snoc: "run p (syms @ [a]) h = fst (step p a (run p syms h))"
  by (simp add: run_def)

lemma ProcessSymbols_ok:
  "(\<forall>i<length syms. snd (step p (syms ! i) (run p (take i syms) h)) = None)
   \<Longrightarrow> ProcessSymbols p syms h = (run p syms h, None)"
proof (induction syms arbitrary: h)
  case Nil
  then show ?case by (simp add: run_def)
next
  case (Cons a syms)
  from Cons.prems have a: "snd (step p a h) = None"
    by (auto simp: run_def dest: spec [of _ 0])
  have "\<forall>i<length syms. snd (step p (syms ! i) (run p (take i syms) (fst (step p a h)))) = None"
  proof (intro allI impI)
    fix i assume "i < length syms"
    then have "snd (step p ((a # syms) ! Suc i) (run p (take (Suc i) (a # syms)) h)) = None"
      using Cons.prems by (metis Suc_less_eq length_Cons)
    then show "snd (step p (syms ! i) (run p (take i syms) (fst (step p a h)))) = None"
      by (simp add: run_def)
  qed
  then have "ProcessSymbols p syms (fst (step p a h)) = (run p syms (fst (step p a h)), None)"
    by (rule Cons.IH)
  then show ?case using a
    by (cases "step p a h") (simp add: run_def)
qed

lemma ProcessSymbols_error:
  "i < length syms \<Longrightarrow>
   (\<forall>j<i. snd (step p (syms ! j) (run p (take j syms) h)) = None) \<Longrightarrow>
   snd (step p (syms ! i) (run p (take i syms) h)) = Some e \<Longrightarrow>
   ProcessSymbols p syms h = (run p (take i syms) h, Some e)"
proof (induction syms arbitrary: h i)
  case Nil
  then show ?case by simp
next
  case (Cons a syms)
  show ?case
  proof (cases i)
    case 0
    then have "snd (step p a h) = Some e"
      using Cons.prems(3) by (simp add: run_def)
    then show ?thesis using 0
      by (cases "step p a h") (auto simp: run_def dest: step_error_unchanged)
  next
    case (Suc k)
    have a: "snd (step p a h) = None"
      using Cons.prems(2) Suc by (auto simp: run_def dest: spec [of _ 0])
    have k: "k < length syms" using Cons.prems(1) Suc by simp
    have pre: "\<forall>j<k. snd (step p (syms ! j) (run p (take j syms) (fst (step p a h)))) = None"
    proof (intro allI impI)
      fix j assume "j < k"
      then have "snd (step p ((a # syms) ! Suc j) (run p (take (Suc j) (a # syms)) h)) = None"
        using Cons.prems(2) Suc by (metis Suc_less_eq)
      then show "snd (step p (syms ! j) (run p (take j syms) (fst (step p a h)))) = None"
        by (simp add: run_def)
    qed
    have "snd (step p (syms ! k) (run p (take k syms) (fst (step p a h)))) = Some e"
      using Cons.prems(3) Suc by (simp add: run_def)
    then have "ProcessSymbols p syms (fst (step p a h))
        = (run p (take k syms) (fst (step p a h)), Some e)"
      using Cons.IH [OF k pre] by simp
    then show ?thesis using a Suc
      by (cases "step p a h") (simp add: run_def)
  qed
qed

subsection \<open>The programs of the repository, evaluated\<close>

lemmas builder_defs = NewBuilder_def SetInitialState_def AddTransition_def lookup_def
  new_FSM_def empty_heap_def main_builder_def deref_def modify_def

lemma fsm_main_builder: "fsm main_builder = 0"
  by (simp add: main_builder_def NewBuilder_def empty_heap_def)

lemma main_heap_fsm:
  "deref main_heap (fsm main_builder) =
     \<lparr>states = [''S0'' \<mapsto> True, ''S1'' \<mapsto> True, ''S2'' \<mapsto> True],
      alphabet = [''0'' \<mapsto> True, ''1'' \<mapsto> True],
      initialState = ''S0'',
      finalStates = [''S0'' \<mapsto> True, ''S1'' \<mapsto> True, ''S2'' \<mapsto> True],
      transitions =
        [\<lparr>State = ''S0'', Symbol = ''0''\<rparr> \<mapsto> ''S0'',
         \<lparr>State = ''S0'', Symbol = ''1''\<rparr> \<mapsto> ''S1'',
         \<lparr>State = ''S1'', Symbol = ''0''\<rparr> \<mapsto> ''S2'',
         \<lparr>State = ''S1'', Symbol = ''1''\<rparr> \<mapsto> ''S0'',
         \<lparr>State = ''S2'', Symbol = ''0''\<rparr> \<mapsto> ''S1'',
         \<lparr>State = ''S2'', Symbol = ''1''\<rparr> \<mapsto> ''S2''],
      currentState = []\<rparr>"
  by (simp add: main_heap_def main_calls_def main_transitions_def builder_defs)

lemma moduloThreeAutomaton_eq:
  "moduloThreeAutomaton =
     (modify (fsm main_builder) (\<lambda>f. f\<lparr>currentState := ''S0''\<rparr>) main_heap,
      Inr (fsm main_builder))"
proof -
  have "modify (fsm main_builder) (\<lambda>f. f\<lparr>currentState := initialState f\<rparr>) main_heap
      = modify (fsm main_builder) (\<lambda>f. f\<lparr>currentState := ''S0''\<rparr>) main_heap"
    by (rule modify_cong) (simp add: main_heap_fsm)
  then show ?thesis
    unfolding moduloThreeAutomaton_def Build_def
    by (simp add: main_heap_fsm Let_def main_states_def main_symbols_def lookup_def)
qed

lemma moduloThree_main: "moduloThree (deref (fst moduloThreeAutomaton) (fsm main_builder))"
  by (simp add: moduloThreeAutomaton_eq main_heap_fsm moduloThree_def)

section \<open>The automaton's operations\<close>

text \<open>
  Claim C7. \<^verbatim>\<open>ProcessString\<close> calls \<^verbatim>\<open>step\<close> on the symbols of the input in order.
  When every call succeeds, it returns no error and leaves the store that the calls
  produce. When the calls on the symbols \<open>pre\<close> succeed and the call on the next symbol
  \<open>a\<close> fails with \<open>e\<close>, it returns \<open>e\<close>, and the store is the one reached after \<open>pre\<close>:
  nothing is rolled back, the symbols after \<open>a\<close> are not looked at, and the failing call
  itself changes nothing.
\<close>

theorem ProcessString_first_error:
  "((\<forall>i<length (range_string input).
       snd (step p (range_string input ! i) (run p (take i (range_string input)) h)) = None)
     \<longrightarrow> ProcessString p input h = (run p (range_string input) h, None)) \<and>
   (range_string input = pre @ a # post \<and>
    (\<forall>i<length pre. snd (step p (pre ! i) (run p (take i pre) h)) = None) \<and>
    snd (step p a (run p pre h)) = Some e
     \<longrightarrow> ProcessString p input h = (run p pre h, Some e) \<and>
         fst (step p a (run p pre h)) = run p pre h)"
proof (intro conjI impI)
  assume "\<forall>i<length (range_string input).
    snd (step p (range_string input ! i) (run p (take i (range_string input)) h)) = None"
  then show "ProcessString p input h = (run p (range_string input) h, None)"
    unfolding ProcessString_def by (rule ProcessSymbols_ok)
next
  assume a: "range_string input = pre @ a # post \<and>
    (\<forall>i<length pre. snd (step p (pre ! i) (run p (take i pre) h)) = None) \<and>
    snd (step p a (run p pre h)) = Some e"
  let ?syms = "range_string input"
  have 1: "length pre < length ?syms" using a by simp
  have 2: "\<forall>j<length pre. snd (step p (?syms ! j) (run p (take j ?syms) h)) = None"
    using a by (simp add: nth_append)
  have 3: "snd (step p (?syms ! length pre) (run p (take (length pre) ?syms) h)) = Some e"
    using a by simp
  show "ProcessString p input h = (run p pre h, Some e)"
    unfolding ProcessString_def using ProcessSymbols_error [OF 1 2 3] a by simp
  show "fst (step p a (run p pre h)) = run p pre h"
    using a by (cases "step p a (run p pre h)") (auto dest: step_error_unchanged)
qed


lemma range_string_110: "range_string ''110'' = [''1'', ''1'', ''0'']"
  by (subst range_string_ascii) simp_all

lemma range_string_102: "range_string ''102'' = [''1'', ''0'', ''2'']"
  by (subst range_string_ascii) simp_all

lemmas automaton_eval = moduloThreeAutomaton_eq main_heap_fsm step_def lookup_def run_def

theorem ProcessString_first_error_witness:
  "ProcessString (fsm main_builder) ''110'' (fst moduloThreeAutomaton)
     = (run (fsm main_builder) [''1'', ''1'', ''0''] (fst moduloThreeAutomaton), None) \<and>
   ProcessString (fsm main_builder) ''102'' (fst moduloThreeAutomaton)
     = (run (fsm main_builder) [''1'', ''0''] (fst moduloThreeAutomaton),
        Some (SymbolNotInAlphabet ''2'')) \<and>
   CurrentState (fsm main_builder)
     (run (fsm main_builder) [''1'', ''0''] (fst moduloThreeAutomaton)) = ''S2''"
proof -
  let ?p = "fsm main_builder" and ?h = "fst moduloThreeAutomaton"
  have ok: "\<forall>i<length (range_string ''110'').
      snd (step ?p (range_string ''110'' ! i) (run ?p (take i (range_string ''110'')) ?h)) = None"
    unfolding range_string_110 by (simp add: All_less_Suc automaton_eval)
  have split: "range_string ''102'' = [''1'', ''0''] @ ''2'' # []"
    unfolding range_string_102 by simp
  have pre: "\<forall>i<length [''1'', ''0''].
      snd (step ?p ([''1'', ''0''] ! i) (run ?p (take i [''1'', ''0'']) ?h)) = None"
    by (simp add: All_less_Suc automaton_eval)
  have bad: "snd (step ?p ''2'' (run ?p [''1'', ''0''] ?h)) = Some (SymbolNotInAlphabet ''2'')"
    by (simp add: automaton_eval)
  have cur: "CurrentState ?p (run ?p [''1'', ''0''] ?h) = ''S2''"
    by (simp add: CurrentState_def automaton_eval)
  show ?thesis
    using ProcessString_first_error [where input = "''110''" and p = ?p and h = ?h]
      ProcessString_first_error [where input = "''102''" and pre = "[''1'', ''0'']"
        and a = "''2''" and post = "[]" and p = ?p and h = ?h
        and e = "SymbolNotInAlphabet ''2''"]
      ok split pre bad cur
    by (simp only: range_string_110 simp_thms)
qed

subsection \<open>The automaton of the tests, evaluated\<close>

lemma ops_heap_fsm:
  "deref ops_heap (fsm main_builder) =
     \<lparr>states = [''q0'' \<mapsto> True, ''q1'' \<mapsto> True],
      alphabet = [''a'' \<mapsto> True, ''b'' \<mapsto> True],
      initialState = ''q0'',
      finalStates = [''q1'' \<mapsto> True],
      transitions =
        [\<lparr>State = ''q0'', Symbol = ''a''\<rparr> \<mapsto> ''q1'',
         \<lparr>State = ''q0'', Symbol = ''b''\<rparr> \<mapsto> ''q0'',
         \<lparr>State = ''q1'', Symbol = ''a''\<rparr> \<mapsto> ''q1'',
         \<lparr>State = ''q1'', Symbol = ''b''\<rparr> \<mapsto> ''q0''],
      currentState = []\<rparr>"
  by (simp add: ops_heap_def ops_calls_def ops_transitions_def builder_defs)

lemma opsAutomaton_eq:
  "opsAutomaton =
     (modify (fsm main_builder) (\<lambda>f. f\<lparr>currentState := ''q0''\<rparr>) ops_heap,
      Inr (fsm main_builder))"
proof -
  have "modify (fsm main_builder) (\<lambda>f. f\<lparr>currentState := initialState f\<rparr>) ops_heap
      = modify (fsm main_builder) (\<lambda>f. f\<lparr>currentState := ''q0''\<rparr>) ops_heap"
    by (rule modify_cong) (simp add: ops_heap_fsm)
  then show ?thesis
    unfolding opsAutomaton_def Build_def
    by (simp add: ops_heap_fsm Let_def ops_states_def ops_symbols_def lookup_def)
qed

lemma Reset_eq:
  "Reset p h = modify p (\<lambda>f. f\<lparr>currentState := initialState (deref h p)\<rparr>) h"
  unfolding Reset_def by (rule modify_cong) simp

lemma range_string_ab: "range_string ''ab'' = [''a'', ''b'']"
  by (subst range_string_ascii) simp_all

lemma range_string_aa: "range_string ''aa'' = [''a'', ''a'']"
  by (subst range_string_ascii) simp_all

lemma range_string_c: "range_string ''c'' = [''c'']"
  by (subst range_string_ascii) simp_all

lemma ProcessInput_finalStates:
  "finalStates (deref (fst (ProcessInput p w h)) p) = finalStates (deref h p)"
proof -
  obtain c where "fst (ProcessInput p w h) = modify p (\<lambda>f. f\<lparr>currentState := c\<rparr>) h"
    using ProcessInput_cursor by blast
  then show ?thesis by simp
qed

lemma ProcessInput_verdict:
  "fst (snd (ProcessInput p w h)) \<longleftrightarrow>
     snd (snd (ProcessInput p w h)) = None \<and>
     lookup (finalStates (deref h p)) (currentState (deref (fst (ProcessInput p w h)) p))"
proof -
  have "fst (snd (ProcessInput p w h)) \<longleftrightarrow>
     snd (snd (ProcessInput p w h)) = None \<and>
     lookup (finalStates (deref (fst (ProcessInput p w h)) p))
       (currentState (deref (fst (ProcessInput p w h)) p))"
    by (auto simp: ProcessInput_def IsFinalState_def split: prod.splits option.splits)
  then show ?thesis by (simp add: ProcessInput_finalStates)
qed

lemmas ops_eval = opsAutomaton_eq ops_heap_fsm step_def lookup_def

text \<open>
  Claim C6. \<^verbatim>\<open>ProcessInput\<close> is \<^verbatim>\<open>ProcessString\<close> run after \<^verbatim>\<open>Reset\<close>: it returns the
  error of \<^verbatim>\<open>ProcessString\<close> with \<^verbatim>\<open>false\<close> when there is one, and otherwise
  \<^verbatim>\<open>IsFinalState()\<close> of the store \<^verbatim>\<open>ProcessString\<close> left. \<^verbatim>\<open>IsFinalState\<close> reads the
  final states at the current state, so the verdict is \<^verbatim>\<open>true\<close> exactly when there is no
  error and the state the cursor ends on is a final state of the automaton. \<^verbatim>\<open>Reset\<close> puts
  the cursor on the initial state, so the result does not depend on where the cursor was
  before.
\<close>

theorem ProcessInput_composition:
  "ProcessInput p input h =
     (fst (ProcessString p input (Reset p h)),
      (case snd (ProcessString p input (Reset p h)) of
         None \<Rightarrow> IsFinalState p (fst (ProcessString p input (Reset p h)))
       | Some err \<Rightarrow> False),
      snd (ProcessString p input (Reset p h))) \<and>
   IsFinalState p h = lookup (finalStates (deref h p)) (currentState (deref h p)) \<and>
   (fst (snd (ProcessInput p input h)) \<longleftrightarrow>
      snd (snd (ProcessInput p input h)) = None \<and>
      lookup (finalStates (deref h p)) (CurrentState p (fst (ProcessInput p input h)))) \<and>
   CurrentState p (Reset p h) = initialState (deref h p) \<and>
   ProcessInput p input (modify p (\<lambda>f. f\<lparr>currentState := c\<rparr>) h) = ProcessInput p input h"
proof (intro conjI)
  show "ProcessInput p input h =
     (fst (ProcessString p input (Reset p h)),
      (case snd (ProcessString p input (Reset p h)) of
         None \<Rightarrow> IsFinalState p (fst (ProcessString p input (Reset p h)))
       | Some err \<Rightarrow> False),
      snd (ProcessString p input (Reset p h)))"
    by (auto simp: ProcessInput_def split: prod.splits option.splits)
  show "IsFinalState p h = lookup (finalStates (deref h p)) (currentState (deref h p))"
    by (simp add: IsFinalState_def)
  show "fst (snd (ProcessInput p input h)) \<longleftrightarrow>
      snd (snd (ProcessInput p input h)) = None \<and>
      lookup (finalStates (deref h p)) (CurrentState p (fst (ProcessInput p input h)))"
    unfolding CurrentState_def by (rule ProcessInput_verdict)
  show "CurrentState p (Reset p h) = initialState (deref h p)"
    by (simp add: CurrentState_def Reset_def)
  show "ProcessInput p input (modify p (\<lambda>f. f\<lparr>currentState := c\<rparr>) h) = ProcessInput p input h"
    by (rule ProcessInput_any_cursor)
qed

theorem ProcessInput_composition_witness:
  "ProcessInput (fsm main_builder) ''ab'' (fst opsAutomaton)
     = (modify (fsm main_builder) (\<lambda>f. f\<lparr>currentState := ''q0''\<rparr>) ops_heap, False, None) \<and>
   ProcessInput (fsm main_builder) ''aa'' (fst opsAutomaton)
     = (modify (fsm main_builder) (\<lambda>f. f\<lparr>currentState := ''q1''\<rparr>) ops_heap, True, None) \<and>
   ProcessInput (fsm main_builder) ''c'' (fst opsAutomaton)
     = (modify (fsm main_builder) (\<lambda>f. f\<lparr>currentState := ''q0''\<rparr>) ops_heap, False,
        Some (SymbolNotInAlphabet ''c'')) \<and>
   \<not> lookup (finalStates (deref (fst opsAutomaton) (fsm main_builder))) ''q0'' \<and>
   lookup (finalStates (deref (fst opsAutomaton) (fsm main_builder))) ''q1'' \<and>
   \<not> IsFinalState (fsm main_builder) (fst opsAutomaton) \<and>
   ProcessInput (fsm main_builder) ''aa''
       (modify (fsm main_builder) (\<lambda>f. f\<lparr>currentState := ''q1''\<rparr>) (fst opsAutomaton))
     = ProcessInput (fsm main_builder) ''aa'' (fst opsAutomaton)"
proof -
  let ?p = "fsm main_builder" and ?h = "fst opsAutomaton"
  have ab: "ProcessString ?p ''ab'' (Reset ?p ?h)
      = (modify ?p (\<lambda>f. f\<lparr>currentState := ''q0''\<rparr>) ops_heap, None)"
    by (simp add: ProcessString_def range_string_ab Reset_eq ops_eval)
  have aa: "ProcessString ?p ''aa'' (Reset ?p ?h)
      = (modify ?p (\<lambda>f. f\<lparr>currentState := ''q1''\<rparr>) ops_heap, None)"
    by (simp add: ProcessString_def range_string_aa Reset_eq ops_eval)
  have c: "ProcessString ?p ''c'' (Reset ?p ?h)
      = (modify ?p (\<lambda>f. f\<lparr>currentState := ''q0''\<rparr>) ops_heap,
         Some (SymbolNotInAlphabet ''c''))"
    by (simp add: ProcessString_def range_string_c Reset_eq ops_eval)
  have f0: "\<not> IsFinalState ?p (modify ?p (\<lambda>f. f\<lparr>currentState := ''q0''\<rparr>) ops_heap)"
    by (simp add: IsFinalState_def ops_heap_fsm lookup_def)
  have f1: "IsFinalState ?p (modify ?p (\<lambda>f. f\<lparr>currentState := ''q1''\<rparr>) ops_heap)"
    by (simp add: IsFinalState_def ops_heap_fsm lookup_def)
  have l0: "\<not> lookup (finalStates (deref ?h ?p)) ''q0''"
    by (simp add: opsAutomaton_eq ops_heap_fsm lookup_def)
  have l1: "lookup (finalStates (deref ?h ?p)) ''q1''"
    by (simp add: opsAutomaton_eq ops_heap_fsm lookup_def)
  have h: "?h = modify ?p (\<lambda>f. f\<lparr>currentState := ''q0''\<rparr>) ops_heap"
    by (simp add: opsAutomaton_eq)
  have 1: "ProcessInput ?p ''ab'' ?h
      = (modify ?p (\<lambda>f. f\<lparr>currentState := ''q0''\<rparr>) ops_heap, False, None)"
    using ProcessInput_composition [of ?p "''ab''" ?h "''q1''"] ab f0 by simp
  have 2: "ProcessInput ?p ''aa'' ?h
      = (modify ?p (\<lambda>f. f\<lparr>currentState := ''q1''\<rparr>) ops_heap, True, None)"
    using ProcessInput_composition [of ?p "''aa''" ?h "''q1''"] aa f1 by simp
  have 3: "ProcessInput ?p ''c'' ?h
      = (modify ?p (\<lambda>f. f\<lparr>currentState := ''q0''\<rparr>) ops_heap, False,
         Some (SymbolNotInAlphabet ''c''))"
    using ProcessInput_composition [of ?p "''c''" ?h "''q1''"] c by simp
  have 4: "ProcessInput ?p ''aa'' (modify ?p (\<lambda>f. f\<lparr>currentState := ''q1''\<rparr>) ?h)
      = ProcessInput ?p ''aa'' ?h"
    using ProcessInput_composition [of ?p "''aa''" ?h "''q1''"] by blast
  have 5: "\<not> IsFinalState ?p ?h"
    using f0 h by simp
  show ?thesis
    using 1 2 3 4 5 l0 l1 by blast
qed

text \<open>
  Claim C9. Calling \<^verbatim>\<open>ProcessInput\<close> a second time on the same string returns the same
  pair and leaves the same store, hence the same current state, also when the cursor was
  moved to any state \<open>c\<close> between the two calls. This holds for every FSM in the store,
  built or not.
\<close>

theorem ProcessInput_repeatable:
  "ProcessInput p w (fst (ProcessInput p w h)) = ProcessInput p w h \<and>
   ProcessInput p w (modify p (\<lambda>f. f\<lparr>currentState := c\<rparr>) (fst (ProcessInput p w h)))
     = ProcessInput p w h"
proof
  have "modify p (\<lambda>f. f\<lparr>currentState := currentState (deref (fst (ProcessInput p w h)) p)\<rparr>)
      (fst (ProcessInput p w h)) = fst (ProcessInput p w h)"
    by (rule modify_id) simp
  then show "ProcessInput p w (fst (ProcessInput p w h)) = ProcessInput p w h"
    using ProcessInput_twice [of p w "currentState (deref (fst (ProcessInput p w h)) p)" h]
    by simp
  show "ProcessInput p w (modify p (\<lambda>f. f\<lparr>currentState := c\<rparr>) (fst (ProcessInput p w h)))
     = ProcessInput p w h"
    by (rule ProcessInput_twice)
qed

theorem ProcessInput_repeatable_witness:
  "ProcessInput (fsm main_builder) ''110'' (fst (ProcessInput (fsm main_builder) ''110''
       (fst moduloThreeAutomaton)))
     = ProcessInput (fsm main_builder) ''110'' (fst moduloThreeAutomaton) \<and>
   ProcessInput (fsm main_builder) ''110''
       (modify (fsm main_builder) (\<lambda>f. f\<lparr>currentState := ''S2''\<rparr>)
         (fst (ProcessInput (fsm main_builder) ''110'' (fst moduloThreeAutomaton))))
     = ProcessInput (fsm main_builder) ''110'' (fst moduloThreeAutomaton)"
  using ProcessInput_repeatable
    [of "fsm main_builder" "''110''" "fst moduloThreeAutomaton" "''S2''"]
  by simp

subsection \<open>The builder's loops\<close>

lemma modify_ident [simp]: "modify p (\<lambda>f. f) h = h"
  by (simp add: modify_def)

lemma inserted_Nil [simp]: "inserted [] m = m"
  by (simp add: inserted_def)

lemma inserted_Cons [simp]: "inserted (x # xs) m = inserted xs (m(x \<mapsto> True))"
  by (simp add: inserted_def)

lemma lookup_inserted: "lookup (inserted xs m) y \<longleftrightarrow> y \<in> set xs \<or> lookup m y"
  by (induction xs arbitrary: m) (auto simp: lookup_def)

lemma AddStates_eq:
  "AddStates b xs h = modify (fsm b) (\<lambda>f. f\<lparr>states := inserted xs (states f)\<rparr>) h"
  by (induction xs arbitrary: h) simp_all

lemma AddSymbols_eq:
  "AddSymbols b xs h = modify (fsm b) (\<lambda>f. f\<lparr>alphabet := inserted xs (alphabet f)\<rparr>) h"
  by (induction xs arbitrary: h) simp_all

lemma AddFinalStates_ok:
  "\<forall>x\<in>set xs. lookup (states (deref h (fsm b))) x \<Longrightarrow>
   AddFinalStates b xs h =
     (modify (fsm b) (\<lambda>f. f\<lparr>finalStates := inserted xs (finalStates f)\<rparr>) h, None)"
  by (induction xs arbitrary: h) simp_all

lemma AddFinalStates_error:
  "\<forall>y\<in>set pre. lookup (states (deref h (fsm b))) y \<Longrightarrow>
   \<not> lookup (states (deref h (fsm b))) x \<Longrightarrow>
   AddFinalStates b (pre @ x # post) h =
     (modify (fsm b) (\<lambda>f. f\<lparr>finalStates := inserted pre (finalStates f)\<rparr>) h,
      Some (StateNotInStateSet x))"
  by (induction pre arbitrary: h) simp_all

subsection \<open>The scan of Build\<close>

lemma Build_symbols_None:
  "Build_symbols tr s syms = None \<longleftrightarrow> (\<forall>a\<in>set syms. tr \<lparr>State = s, Symbol = a\<rparr> \<noteq> None)"
  by (induction syms) auto


lemma Build_states_None:
  "Build_states tr os ss = None \<longleftrightarrow>
   (\<forall>s\<in>set ss. \<forall>a\<in>set (os s). tr \<lparr>State = s, Symbol = a\<rparr> \<noteq> None)"
proof (induction ss)
  case Nil
  then show ?case by simp
next
  case (Cons s ss)
  show ?case
  proof (cases "Build_symbols tr s (os s)")
    case None
    then show ?thesis using Cons Build_symbols_None [of tr s "os s"] by simp
  next
    case (Some e)
    then have "\<not> (\<forall>a\<in>set (os s). tr \<lparr>State = s, Symbol = a\<rparr> \<noteq> None)"
      using Build_symbols_None [of tr s "os s"] by simp
    then show ?thesis using Some by auto
  qed
qed


lemma Build_states_total:
  "range_order (states f) ss \<Longrightarrow> \<forall>s. range_order (alphabet f) (os s) \<Longrightarrow>
   Build_states (transitions f) os ss = None \<longleftrightarrow> transitions_total f"
  by (simp add: Build_states_None transitions_total_def range_order_def)



subsection \<open>The test builders, evaluated\<close>

lemma test_heap_fsm:
  "deref test_heap (fsm main_builder) =
     \<lparr>states = [''q0'' \<mapsto> True, ''q1'' \<mapsto> True, ''q2'' \<mapsto> True],
      alphabet = [''0'' \<mapsto> True, ''1'' \<mapsto> True],
      initialState = ''q0'',
      finalStates = [''q0'' \<mapsto> True, ''q1'' \<mapsto> True],
      transitions = [\<lparr>State = ''q0'', Symbol = ''0''\<rparr> \<mapsto> ''q1''],
      currentState = []\<rparr>"
  by (simp add: test_heap_def test_calls_def builder_defs)


lemma blank_heap_fsm:
  "deref blank_heap (fsm main_builder) =
     \<lparr>states = [[] \<mapsto> True], alphabet = Map.empty, initialState = [],
      finalStates = Map.empty, transitions = Map.empty, currentState = []\<rparr>"
  by (simp add: blank_heap_def builder_defs)

section \<open>The builder's operations\<close>

text \<open>
  Claim C5. \<^verbatim>\<open>AddTransition\<close> returns the error "state ... not in state set" exactly
  when \<open>state\<close> is not in the state set; "next state ... not in state set" exactly when
  \<open>state\<close> is and \<open>nextState\<close> is not; "symbol ... not in alphabet" exactly when both states
  are and \<open>symbol\<close> is not in the alphabet; "transition ... already defined" exactly when
  these three are known and the pair \<open>(state, symbol)\<close> has a transition already. Each of
  these leaves the store as it was. It returns no error exactly when none of the four
  holds, and then the store has the new transition. The messages are those of the tests.
\<close>

theorem AddTransition_precedence:
  "(let f = deref h (fsm b); key = \<lparr>State = state, Symbol = symbol\<rparr>;
        r = AddTransition b state symbol nextState h in
    (r = (h, Some (StateNotInStateSet state)) \<longleftrightarrow> \<not> lookup (states f) state) \<and>
    (r = (h, Some (NextStateNotInStateSet nextState)) \<longleftrightarrow>
       lookup (states f) state \<and> \<not> lookup (states f) nextState) \<and>
    (r = (h, Some (SymbolNotInAlphabet symbol)) \<longleftrightarrow>
       lookup (states f) state \<and> lookup (states f) nextState \<and> \<not> lookup (alphabet f) symbol) \<and>
    (r = (h, Some (TransitionAlreadyDefined state symbol)) \<longleftrightarrow>
       lookup (states f) state \<and> lookup (states f) nextState \<and> lookup (alphabet f) symbol \<and>
       transitions f key \<noteq> None) \<and>
    (snd r = None \<longleftrightarrow>
       lookup (states f) state \<and> lookup (states f) nextState \<and> lookup (alphabet f) symbol \<and>
       transitions f key = None) \<and>
    fst r = (if snd r = None
             then modify (fsm b) (\<lambda>f. f\<lparr>transitions := (transitions f)(key \<mapsto> nextState)\<rparr>) h
             else h)) \<and>
   Error (StateNotInStateSet ''S0'') = ''state S0 not in state set'' \<and>
   Error (NextStateNotInStateSet ''s1'') = ''next state s1 not in state set'' \<and>
   Error (SymbolNotInAlphabet ''4'') = ''symbol 4 not in alphabet'' \<and>
   Error (TransitionAlreadyDefined ''q0'' ''0'')
     = ''transition '' @ [CHR 0xCE, CHR 0xB4] @ ''(q0, 0) already defined''"
  by (simp add: AddTransition_def Let_def delta_def)

theorem AddTransition_precedence_witness:
  "AddTransition main_builder ''q0'' ''0'' ''q1'' test_heap
     = (test_heap, Some (TransitionAlreadyDefined ''q0'' ''0'')) \<and>
   AddTransition main_builder ''S0'' ''0'' ''q1'' test_heap
     = (test_heap, Some (StateNotInStateSet ''S0'')) \<and>
   AddTransition main_builder ''q0'' ''0'' ''s1'' test_heap
     = (test_heap, Some (NextStateNotInStateSet ''s1'')) \<and>
   AddTransition main_builder ''q0'' ''4'' ''q1'' test_heap
     = (test_heap, Some (SymbolNotInAlphabet ''4'')) \<and>
   snd (AddTransition main_builder ''q0'' ''1'' ''q1'' test_heap) = None \<and>
   transitions (deref (fst (AddTransition main_builder ''q0'' ''1'' ''q1'' test_heap))
     (fsm main_builder)) \<lparr>State = ''q0'', Symbol = ''1''\<rparr> = Some ''q1''"
  using AddTransition_precedence [of test_heap main_builder "''q0''" "''0''" "''q1''"]
    AddTransition_precedence [of test_heap main_builder "''S0''" "''0''" "''q1''"]
    AddTransition_precedence [of test_heap main_builder "''q0''" "''0''" "''s1''"]
    AddTransition_precedence [of test_heap main_builder "''q0''" "''4''" "''q1''"]
    AddTransition_precedence [of test_heap main_builder "''q0''" "''1''" "''q1''"]
  by (simp add: Let_def test_heap_fsm lookup_def)

text \<open>
  Claim C8. \<^verbatim>\<open>AddFinalStates\<close> takes its labels in order. When every label is in the
  state set, all are inserted into the final states and there is no error. When the
  labels \<open>pre\<close> are in the state set and the next label \<open>x\<close> is not, the error is
  "state x not in state set", and the labels of \<open>pre\<close> have been inserted and stay: the
  final states are those before the call and those of \<open>pre\<close>.
\<close>

theorem AddFinalStates_partial:
  "((\<forall>x\<in>set xs. lookup (states (deref h (fsm b))) x) \<longrightarrow>
      AddFinalStates b xs h =
        (modify (fsm b) (\<lambda>f. f\<lparr>finalStates := inserted xs (finalStates f)\<rparr>) h, None)) \<and>
   (xs = pre @ x # post \<and> (\<forall>y\<in>set pre. lookup (states (deref h (fsm b))) y) \<and>
    \<not> lookup (states (deref h (fsm b))) x \<longrightarrow>
      AddFinalStates b xs h =
        (modify (fsm b) (\<lambda>f. f\<lparr>finalStates := inserted pre (finalStates f)\<rparr>) h,
         Some (StateNotInStateSet x)) \<and>
      (\<forall>y\<in>set pre. lookup (finalStates (deref (fst (AddFinalStates b xs h)) (fsm b))) y)) \<and>
   (\<forall>y. lookup (inserted xs m) y \<longleftrightarrow> y \<in> set xs \<or> lookup m y)"
  by (auto simp: AddFinalStates_ok AddFinalStates_error lookup_inserted)

theorem AddFinalStates_partial_witness:
  "AddFinalStates main_builder [''q2'', ''q1''] test_heap
     = (modify (fsm main_builder)
          (\<lambda>f. f\<lparr>finalStates := inserted [''q2'', ''q1''] (finalStates f)\<rparr>) test_heap, None) \<and>
   AddFinalStates main_builder [''q2'', ''S1'', ''q1''] test_heap
     = (modify (fsm main_builder)
          (\<lambda>f. f\<lparr>finalStates := inserted [''q2''] (finalStates f)\<rparr>) test_heap,
        Some (StateNotInStateSet ''S1'')) \<and>
   lookup (finalStates (deref (fst (AddFinalStates main_builder [''q2'', ''S1'', ''q1''] test_heap))
     (fsm main_builder))) ''q2'' \<and>
   \<not> lookup (finalStates (deref test_heap (fsm main_builder))) ''q2''"
  using AddFinalStates_partial [of "[''q2'', ''q1'']" test_heap main_builder]
    AddFinalStates_partial [of "[''q2'', ''S1'', ''q1'']" test_heap main_builder
      "[''q2'']" "''S1''" "[''q1'']"]
  by (simp add: test_heap_fsm lookup_def)


lemma Build_cases:
  assumes "range_order (states (deref h (fsm b))) ss"
    and "\<forall>s. range_order (alphabet (deref h (fsm b))) (os s)"
  shows "Build ss os b h =
    (let f = deref h (fsm b) in
     if dom (states f) = {} then (h, Inl NoStates)
     else if dom (alphabet f) = {} then (h, Inl NoSymbols)
     else if initialState f = [] then (h, Inl NoInitialState)
     else if dom (finalStates f) = {} then (h, Inl NoFinalStates)
     else if \<not> lookup (states f) (initialState f) then (h, Inl InitialStateNotInStateSet)
     else if transitions_total f
     then (modify (fsm b) (\<lambda>f. f\<lparr>currentState := initialState f\<rparr>) h, Inr (fsm b))
     else (h, Inl (the (Build_states (transitions f) os ss))))"
  using Build_states_total [OF assms]
  by (auto simp: Build_def Let_def split: option.splits)







text \<open>
  Claim C10, as amended. After \<^verbatim>\<open>SetInitialState("")\<close> succeeded (so the empty label is in
  the state set), \<^verbatim>\<open>Build\<close> fails: with "FSM must have an initial state" when the alphabet
  is not empty, and with "FSM must have at least one symbol in alphabet" when it is
  empty, since the alphabet is checked first. So no automaton whose initial state is the
  empty label is built.
\<close>

theorem Build_blank_initial_state:
  assumes "SetInitialState b [] h = (h', None)"
  shows "lookup (states (deref h' (fsm b))) [] \<and> initialState (deref h' (fsm b)) = [] \<and>
    Build ss os b h' =
      (h', Inl (if dom (alphabet (deref h' (fsm b))) = {} then NoSymbols else NoInitialState)) \<and>
    Error NoInitialState = ''FSM must have an initial state'' \<and>
    Error NoSymbols = ''FSM must have at least one symbol in alphabet''"
proof -
  have l: "lookup (states (deref h (fsm b))) []"
    and h': "h' = modify (fsm b) (\<lambda>f. f\<lparr>initialState := []\<rparr>) h"
    using assms by (auto simp: SetInitialState_def split: if_splits)
  have "dom (states (deref h (fsm b))) \<noteq> {}"
    using lookup_dom [OF l] by auto
  then show ?thesis
    using l by (simp add: h' Build_def Let_def)
qed

theorem Build_blank_initial_state_witness:
  "SetInitialState main_builder [] (AddSymbols main_builder [''0'', ''1''] blank_heap)
     = (modify (fsm main_builder) (\<lambda>f. f\<lparr>initialState := []\<rparr>)
          (AddSymbols main_builder [''0'', ''1''] blank_heap), None) \<and>
   snd (Build blank_states main_symbols main_builder
     (modify (fsm main_builder) (\<lambda>f. f\<lparr>initialState := []\<rparr>)
        (AddSymbols main_builder [''0'', ''1''] blank_heap))) = Inl NoInitialState"
proof -
  have s: "SetInitialState main_builder [] (AddSymbols main_builder [''0'', ''1''] blank_heap)
     = (modify (fsm main_builder) (\<lambda>f. f\<lparr>initialState := []\<rparr>)
          (AddSymbols main_builder [''0'', ''1''] blank_heap), None)"
    by (simp add: SetInitialState_def blank_heap_fsm lookup_def)
  show ?thesis
    using Build_blank_initial_state [OF s, of blank_states main_symbols] s
    by (simp add: blank_heap_fsm)
qed

text \<open>
  The claim as it was stated fails on the builder that has the state with the empty label
  and no symbol: the error is the one about the alphabet.
\<close>

theorem Build_blank_no_symbols_counterexample:
  "lookup (states (deref blank_heap (fsm main_builder))) [] \<and>
   snd (SetInitialState main_builder [] blank_heap) = None \<and>
   range_order (states (deref (fst (SetInitialState main_builder [] blank_heap))
     (fsm main_builder))) blank_states \<and>
   range_order (alphabet (deref (fst (SetInitialState main_builder [] blank_heap))
     (fsm main_builder))) (no_symbols []) \<and>
   snd (Build blank_states no_symbols main_builder (fst (SetInitialState main_builder [] blank_heap)))
     = Inl NoSymbols \<and>
   snd (Build blank_states no_symbols main_builder (fst (SetInitialState main_builder [] blank_heap)))
     \<noteq> Inl NoInitialState"
  by (simp add: SetInitialState_def Build_def Let_def blank_heap_fsm lookup_def range_order_def
      blank_states_def no_symbols_def)

section \<open>What every reachable FSM satisfies\<close>

lemma extends_refl: "extends f f"
  by (simp add: extends_def)

lemma extends_trans: "extends f g \<Longrightarrow> extends g k \<Longrightarrow> extends f k"
  by (auto simp: extends_def intro: map_le_trans)

lemma only_true_inserted: "only_true m \<Longrightarrow> only_true (inserted xs m)"
  by (induction xs arbitrary: m) (simp_all add: only_true_upd)

lemma map_le_inserted: "only_true m \<Longrightarrow> m \<subseteq>\<^sub>m inserted xs m"
proof (induction xs arbitrary: m)
  case Nil
  then show ?case by simp
next
  case (Cons x xs)
  have "m \<subseteq>\<^sub>m m(x \<mapsto> True)" using Cons.prems by (rule only_true_map_le)
  moreover have "m(x \<mapsto> True) \<subseteq>\<^sub>m inserted xs (m(x \<mapsto> True))"
    using Cons.prems by (intro Cons.IH only_true_upd)
  ultimately show ?case by (auto intro: map_le_trans)
qed

lemma grows_refl: "grows f f"
  by (simp add: grows_def extends_refl)

lemma grows_trans: "grows f g \<Longrightarrow> grows g k \<Longrightarrow> grows f k"
  by (auto simp: grows_def intro: extends_trans)

lemma grows_cursor: "grows f (f\<lparr>currentState := c\<rparr>)"
  by (simp add: grows_def fsm_inv_def extends_def)

lemma grows_initial: "grows f (f\<lparr>initialState := c\<rparr>)"
  by (simp add: grows_def fsm_inv_def extends_def)

lemma grows_states: "grows f (f\<lparr>states := inserted xs (states f)\<rparr>)"
  by (auto simp: grows_def fsm_inv_def extends_def only_true_inserted map_le_inserted
      lookup_inserted)

lemma grows_alphabet: "grows f (f\<lparr>alphabet := inserted xs (alphabet f)\<rparr>)"
  by (auto simp: grows_def fsm_inv_def extends_def only_true_inserted map_le_inserted)

lemma grows_finalStates: "grows f (f\<lparr>finalStates := inserted xs (finalStates f)\<rparr>)"
  by (auto simp: grows_def fsm_inv_def extends_def only_true_inserted map_le_inserted)

lemma grows_transitions:
  "lookup (states f) t \<Longrightarrow> transitions f k = None \<Longrightarrow>
   grows f (f\<lparr>transitions := (transitions f)(k \<mapsto> t)\<rparr>)"
  by (auto simp: grows_def fsm_inv_def extends_def map_le_def)

lemma AddFinalStates_prefix:
  "\<exists>pre. fst (AddFinalStates b xs h) =
     modify (fsm b) (\<lambda>f. f\<lparr>finalStates := inserted pre (finalStates f)\<rparr>) h"
proof (induction xs arbitrary: h)
  case Nil
  have "fst (AddFinalStates b [] h) =
     modify (fsm b) (\<lambda>f. f\<lparr>finalStates := inserted [] (finalStates f)\<rparr>) h"
    by simp
  then show ?case by (rule exI)
next
  case (Cons x xs)
  show ?case
  proof (cases "lookup (states (deref h (fsm b))) x")
    case False
    then have "fst (AddFinalStates b (x # xs) h) =
       modify (fsm b) (\<lambda>f. f\<lparr>finalStates := inserted [] (finalStates f)\<rparr>) h"
      by simp
    then show ?thesis by (rule exI)
  next
    case True
    let ?h1 = "modify (fsm b) (\<lambda>f. f\<lparr>finalStates := (finalStates f)(x \<mapsto> True)\<rparr>) h"
    obtain pre where "fst (AddFinalStates b xs ?h1) =
       modify (fsm b) (\<lambda>f. f\<lparr>finalStates := inserted pre (finalStates f)\<rparr>) ?h1"
      using Cons.IH [of ?h1] by blast
    then have "fst (AddFinalStates b (x # xs) h) =
       modify (fsm b) (\<lambda>f. f\<lparr>finalStates := inserted (x # pre) (finalStates f)\<rparr>) h"
      using True by simp
    then show ?thesis by (rule exI)
  qed
qed

lemma grows_AddTransition:
  "grows (deref h (fsm b)) (deref (fst (AddTransition b s a t h)) (fsm b))"
  by (auto simp: AddTransition_def Let_def grows_refl intro: grows_transitions)

lemma grows_AddTransitionsGroup:
  "grows (deref h (fsm b)) (deref (fst (AddTransitionsGroup b g h)) (fsm b))"
proof (induction g arbitrary: h)
  case Nil
  then show ?case by (simp add: grows_refl)
next
  case (Cons kt g)
  obtain k t where kt: "kt = (k, t)" by (cases kt)
  obtain h1 r where a: "AddTransition b (State k) (Symbol k) t h = (h1, r)"
    by (cases "AddTransition b (State k) (Symbol k) t h")
  have 1: "grows (deref h (fsm b)) (deref h1 (fsm b))"
    using grows_AddTransition [of h b "State k" "Symbol k" t] a by simp
  show ?case
  proof (cases r)
    case None
    then show ?thesis
      using kt a 1 Cons.IH [of h1] by (auto intro: grows_trans)
  next
    case (Some e)
    then show ?thesis using kt a 1 by simp
  qed
qed

lemma grows_AddTransitions:
  "grows (deref h (fsm b)) (deref (fst (AddTransitions b ts h)) (fsm b))"
proof (induction ts arbitrary: h)
  case Nil
  then show ?case by (simp add: grows_refl)
next
  case (Cons g ts)
  obtain h1 r where a: "AddTransitionsGroup b g h = (h1, r)"
    by (cases "AddTransitionsGroup b g h")
  have 1: "grows (deref h (fsm b)) (deref h1 (fsm b))"
    using grows_AddTransitionsGroup [of h b g] a by simp
  show ?case
  proof (cases r)
    case None
    then show ?thesis
      using a 1 Cons.IH [of h1] by (auto intro: grows_trans)
  next
    case (Some e)
    then show ?thesis using a 1 by simp
  qed
qed

lemma grows_apply_op: "grows (deref h (fsm b)) (deref (apply_op b x h) (fsm b))"
proof (cases x)
  case (OpAddStates xs)
  then show ?thesis by (simp add: AddStates_eq grows_states)
next
  case (OpAddSymbols xs)
  then show ?thesis by (simp add: AddSymbols_eq grows_alphabet)
next
  case (OpSetInitialState q)
  then show ?thesis by (simp add: SetInitialState_def grows_refl grows_initial)
next
  case (OpAddFinalStates xs)
  then show ?thesis
    using AddFinalStates_prefix [of b xs h] by (auto simp: grows_finalStates)
next
  case (OpAddTransition s a t)
  then show ?thesis by (simp add: grows_AddTransition)
next
  case (OpAddTransitions ts)
  then show ?thesis by (simp add: grows_AddTransitions)
qed

lemma grows_apply_ops: "grows (deref h (fsm b)) (deref (apply_ops b xs h) (fsm b))"
proof (induction xs arbitrary: h)
  case Nil
  then show ?case by (simp add: grows_refl)
next
  case (Cons x xs)
  show ?case
    using grows_apply_op [of h b x] Cons.IH [of "apply_op b x h"]
    by (auto intro: grows_trans)
qed

lemma Build_cursor:
  "\<exists>c. fst (Build ss os b h) = modify (fsm b) (\<lambda>f. f\<lparr>currentState := c\<rparr>) h"
proof (cases "snd (Build ss os b h)")
  case (Inl e)
  then have "fst (Build ss os b h) = h"
    by (auto simp: Build_def Let_def split: if_splits option.splits)
  moreover have "modify (fsm b) (\<lambda>f. f\<lparr>currentState := currentState (deref h (fsm b))\<rparr>) h = h"
    by (rule modify_id) simp
  ultimately show ?thesis by metis
next
  case (Inr p)
  then have "fst (Build ss os b h)
      = modify (fsm b) (\<lambda>f. f\<lparr>currentState := initialState f\<rparr>) h"
    by (auto simp: Build_def Let_def split: if_splits option.splits)
  moreover have "modify (fsm b) (\<lambda>f. f\<lparr>currentState := initialState f\<rparr>) h
      = modify (fsm b) (\<lambda>f. f\<lparr>currentState := initialState (deref h (fsm b))\<rparr>) h"
    by (rule modify_cong) simp
  ultimately show ?thesis by metis
qed

lemma grows_exec_call: "grows (deref h (fsm b)) (deref (exec_call b c h) (fsm b))"
proof (cases c)
  case (CallOp x)
  then show ?thesis by (simp add: grows_apply_op)
next
  case (CallBuild ss os)
  then show ?thesis using Build_cursor [of ss os b h] by (auto simp: grows_cursor)
next
  case CallReset
  then show ?thesis by (simp add: Reset_def grows_cursor)
next
  case (CallStep a)
  then show ?thesis using step_cursor [of "fsm b" a h] by (auto simp: grows_cursor)
next
  case (CallProcessString w)
  then show ?thesis
    using ProcessSymbols_cursor [of "fsm b" "range_string w" h]
    by (auto simp: ProcessString_def grows_cursor)
next
  case (CallProcessInput w)
  then show ?thesis using ProcessInput_cursor [of "fsm b" w h] by (auto simp: grows_cursor)
qed

lemma fsm_inv_new: "fsm_inv new_FSM"
  by (simp add: fsm_inv_def new_FSM_def only_true_def)

lemma reachable_inv: "reachable h b \<Longrightarrow> fsm_inv (deref h (fsm b))"
proof (induction rule: reachable.induct)
  case (reachable_new h0 h b)
  then have "deref h (fsm b) = new_FSM"
    by (auto simp: NewBuilder_def deref_def)
  then show ?case by (simp add: fsm_inv_new)
next
  case (reachable_call h b c)
  then show ?case using grows_exec_call [of h b c] by (simp add: grows_def)
next
  case (reachable_other h b h')
  then show ?case by simp
qed

lemma reachable_exec_calls:
  "reachable h b \<Longrightarrow> reachable (exec_calls b cs h) b"
  by (induction cs arbitrary: h) (simp_all add: reachable_call)

lemma reachable_main: "reachable main_heap main_builder"
  unfolding main_heap_def
  by (rule reachable_exec_calls, rule reachable_new [of empty_heap]) (simp add: main_builder_def)

subsection \<open>A successful Build\<close>

lemma Build_success:
  assumes "range_order (states (deref h (fsm b))) ss"
    and "\<forall>s. range_order (alphabet (deref h (fsm b))) (os s)"
    and "Build ss os b h = (h', Inr p)"
  shows "p = fsm b"
    and "h' = modify (fsm b) (\<lambda>f. f\<lparr>currentState := initialState (deref h (fsm b))\<rparr>) h"
    and "transitions_total (deref h (fsm b))"
proof -
  have c: "Build ss os b h =
      (modify (fsm b) (\<lambda>f. f\<lparr>currentState := initialState f\<rparr>) h, Inr (fsm b))
    \<and> transitions_total (deref h (fsm b))"
    using Build_cases [OF assms(1,2)] assms(3)
    by (auto simp: Let_def split: if_splits)
  show "p = fsm b" using c assms(3) by simp
  show "transitions_total (deref h (fsm b))" using c by simp
  have "modify (fsm b) (\<lambda>f. f\<lparr>currentState := initialState f\<rparr>) h
      = modify (fsm b) (\<lambda>f. f\<lparr>currentState := initialState (deref h (fsm b))\<rparr>) h"
    by (rule modify_cong) simp
  then show "h' = modify (fsm b) (\<lambda>f. f\<lparr>currentState := initialState (deref h (fsm b))\<rparr>) h"
    using c assms(3) by simp
qed

lemma step_total:
  assumes inv: "fsm_inv (deref h p)" and tot: "transitions_total (deref h p)"
    and s: "s \<in> dom (states (deref h p))" and a: "a \<in> dom (alphabet (deref h p))"
  shows "\<exists>t. step p a (modify p (\<lambda>f. f\<lparr>currentState := s\<rparr>) h)
        = (modify p (\<lambda>f. f\<lparr>currentState := t\<rparr>) h, None) \<and>
      t \<in> dom (states (deref h p)) \<and>
      transitions (deref h p) \<lparr>State = s, Symbol = a\<rparr> = Some t"
proof -
  obtain t where t: "transitions (deref h p) \<lparr>State = s, Symbol = a\<rparr> = Some t"
    using tot s a by (auto simp: transitions_total_def)
  have la: "lookup (alphabet (deref h p)) a"
    using inv a by (auto simp: fsm_inv_def intro: only_true_lookup)
  have "lookup (states (deref h p)) t"
    using inv t by (auto simp: fsm_inv_def)
  then have "t \<in> dom (states (deref h p))" by (rule lookup_dom)
  moreover have "step p a (modify p (\<lambda>f. f\<lparr>currentState := s\<rparr>) h)
        = (modify p (\<lambda>f. f\<lparr>currentState := t\<rparr>) h, None)"
    using la t by (simp add: step_def)
  ultimately show ?thesis using t by blast
qed

section \<open>Totality of the built automaton\<close>

lemma ProcessSymbols_total:
  assumes "fsm_inv (deref h p)" and "transitions_total (deref h p)"
    and "currentState (deref h p) \<in> dom (states (deref h p))"
  shows "snd (ProcessSymbols p syms h) \<noteq> Some (NoTransitionDefined x y)"
  using assms
proof (induction syms arbitrary: h)
  case Nil
  then show ?case by simp
next
  case (Cons a syms)
  show ?case
  proof (cases "lookup (alphabet (deref h p)) a")
    case False
    then show ?thesis by (simp add: step_def)
  next
    case True
    let ?s = "currentState (deref h p)"
    have h: "modify p (\<lambda>f. f\<lparr>currentState := ?s\<rparr>) h = h"
      by (rule modify_id) simp
    obtain t where t: "step p a (modify p (\<lambda>f. f\<lparr>currentState := ?s\<rparr>) h)
        = (modify p (\<lambda>f. f\<lparr>currentState := t\<rparr>) h, None)"
      "t \<in> dom (states (deref h p))"
      using step_total [OF Cons.prems(1,2,3) lookup_dom [OF True]] by blast
    let ?h1 = "modify p (\<lambda>f. f\<lparr>currentState := t\<rparr>) h"
    have 1: "fsm_inv (deref ?h1 p)"
      using Cons.prems(1) by (simp add: fsm_inv_def)
    have 2: "transitions_total (deref ?h1 p)"
      using Cons.prems(2) by (simp add: transitions_total_def)
    have 3: "currentState (deref ?h1 p) \<in> dom (states (deref ?h1 p))"
      using t(2) by simp
    have "snd (ProcessSymbols p syms ?h1) \<noteq> Some (NoTransitionDefined x y)"
      using 1 2 3 by (rule Cons.IH)
    then show ?thesis using t(1) by (simp add: h)
  qed
qed

text \<open>
  Claim C2. Take a builder made by \<^verbatim>\<open>NewBuilder\<close> and used in any way, and let \<^verbatim>\<open>Build\<close>
  succeed on it, whatever the order its loops visit the states and symbols in. Then for
  every state \<open>s\<close> of the state set and every symbol \<open>a\<close> of the alphabet of the automaton
  returned, \<^verbatim>\<open>step(a)\<close> with the cursor on \<open>s\<close> returns no error and moves the cursor to the
  target of the transition on \<open>(s, a)\<close>, which is a state of the state set. So the error
  "no transition defined" is returned neither by this \<^verbatim>\<open>step\<close>, nor by \<^verbatim>\<open>ProcessString\<close>
  started on any state of the state set, nor by \<^verbatim>\<open>ProcessInput\<close>, on any input.
\<close>

theorem step_total_after_Build:
  assumes "reachable h b"
    and "range_order (states (deref h (fsm b))) ss"
    and "\<forall>s. range_order (alphabet (deref h (fsm b))) (os s)"
    and "Build ss os b h = (h', Inr p)"
    and "s \<in> dom (states (deref h' p))"
    and "a \<in> dom (alphabet (deref h' p))"
  shows "(\<exists>t. step p a (modify p (\<lambda>f. f\<lparr>currentState := s\<rparr>) h')
        = (modify p (\<lambda>f. f\<lparr>currentState := t\<rparr>) h', None) \<and>
      t \<in> dom (states (deref h' p)) \<and>
      transitions (deref h' p) \<lparr>State = s, Symbol = a\<rparr> = Some t) \<and>
    snd (step p a (modify p (\<lambda>f. f\<lparr>currentState := s\<rparr>) h'))
      \<noteq> Some (NoTransitionDefined s a) \<and>
    snd (ProcessString p w (modify p (\<lambda>f. f\<lparr>currentState := s\<rparr>) h'))
      \<noteq> Some (NoTransitionDefined x y) \<and>
    snd (snd (ProcessInput p w h')) \<noteq> Some (NoTransitionDefined x y)"
proof -
  let ?f = "deref h (fsm b)"
  have p: "p = fsm b"
    and h': "h' = modify (fsm b) (\<lambda>f. f\<lparr>currentState := initialState ?f\<rparr>) h"
    and tot: "transitions_total ?f"
    using Build_success [OF assms(2,3,4)] by auto
  have inv: "fsm_inv ?f" using assms(1) by (rule reachable_inv)
  have inv': "fsm_inv (deref h' p)"
    using inv grows_cursor [of ?f "initialState ?f"]
    by (simp add: p h' grows_def)
  have tot': "transitions_total (deref h' p)"
    using tot by (simp add: p h' transitions_total_def)
  obtain t where t: "step p a (modify p (\<lambda>f. f\<lparr>currentState := s\<rparr>) h')
        = (modify p (\<lambda>f. f\<lparr>currentState := t\<rparr>) h', None)"
      "t \<in> dom (states (deref h' p))"
      "transitions (deref h' p) \<lparr>State = s, Symbol = a\<rparr> = Some t"
    using step_total [OF inv' tot' assms(5,6)] by blast
  have 1: "snd (step p a (modify p (\<lambda>f. f\<lparr>currentState := s\<rparr>) h'))
        \<noteq> Some (NoTransitionDefined s a)"
    using t(1) by simp
  have 2: "snd (ProcessString p w (modify p (\<lambda>f. f\<lparr>currentState := s\<rparr>) h'))
      \<noteq> Some (NoTransitionDefined x y)"
    unfolding ProcessString_def
  proof (rule ProcessSymbols_total)
    show "fsm_inv (deref (modify p (\<lambda>f. f\<lparr>currentState := s\<rparr>) h') p)"
      using inv' by (simp add: fsm_inv_def)
    show "transitions_total (deref (modify p (\<lambda>f. f\<lparr>currentState := s\<rparr>) h') p)"
      using tot' by (simp add: transitions_total_def)
    show "currentState (deref (modify p (\<lambda>f. f\<lparr>currentState := s\<rparr>) h') p)
        \<in> dom (states (deref (modify p (\<lambda>f. f\<lparr>currentState := s\<rparr>) h') p))"
      using assms(5) by simp
  qed
  have init: "lookup (states ?f) (initialState ?f)"
    using assms(4) by (auto simp: Build_def Let_def split: if_splits option.splits)
  have 3: "snd (ProcessString p w (Reset p h')) \<noteq> Some (NoTransitionDefined x y)"
    unfolding ProcessString_def
  proof (rule ProcessSymbols_total)
    show "fsm_inv (deref (Reset p h') p)"
      using inv' by (simp add: Reset_def fsm_inv_def)
    show "transitions_total (deref (Reset p h') p)"
      using tot' by (simp add: Reset_def transitions_total_def)
    show "currentState (deref (Reset p h') p) \<in> dom (states (deref (Reset p h') p))"
      using lookup_dom [OF init] by (simp add: Reset_def p h')
  qed
  have 4: "snd (snd (ProcessInput p w h')) \<noteq> Some (NoTransitionDefined x y)"
    using 3 by (auto simp: ProcessInput_def split: prod.splits option.splits)
  show ?thesis using t 1 2 4 by blast
qed

lemma reachable_ops: "reachable ops_heap main_builder"
  unfolding ops_heap_def
  by (rule reachable_exec_calls, rule reachable_new [of empty_heap]) (simp add: main_builder_def)

lemma ops_orders:
  "range_order (states (deref ops_heap (fsm main_builder))) ops_states"
  "\<forall>s. range_order (alphabet (deref ops_heap (fsm main_builder))) (ops_symbols s)"
  by (auto simp: range_order_def ops_heap_fsm ops_states_def ops_symbols_def)

theorem step_total_after_Build_witness:
  "reachable ops_heap main_builder \<and>
   range_order (states (deref ops_heap (fsm main_builder))) ops_states \<and>
   range_order (alphabet (deref ops_heap (fsm main_builder))) (ops_symbols ''q0'') \<and>
   Build ops_states ops_symbols main_builder ops_heap = (fst opsAutomaton, Inr (fsm main_builder)) \<and>
   ''q1'' \<in> dom (states (deref (fst opsAutomaton) (fsm main_builder))) \<and>
   ''b'' \<in> dom (alphabet (deref (fst opsAutomaton) (fsm main_builder))) \<and>
   (\<exists>t. step (fsm main_builder) ''b''
          (modify (fsm main_builder) (\<lambda>f. f\<lparr>currentState := ''q1''\<rparr>) (fst opsAutomaton))
        = (modify (fsm main_builder) (\<lambda>f. f\<lparr>currentState := t\<rparr>) (fst opsAutomaton), None) \<and>
      t \<in> dom (states (deref (fst opsAutomaton) (fsm main_builder))) \<and>
      transitions (deref (fst opsAutomaton) (fsm main_builder))
        \<lparr>State = ''q1'', Symbol = ''b''\<rparr> = Some t) \<and>
   transitions (deref (fst opsAutomaton) (fsm main_builder))
        \<lparr>State = ''q1'', Symbol = ''b''\<rparr> = Some ''q0''"
proof -
  have b: "Build ops_states ops_symbols main_builder ops_heap
      = (fst opsAutomaton, Inr (fsm main_builder))"
    by (simp add: opsAutomaton_eq [unfolded opsAutomaton_def] opsAutomaton_eq)
  have s: "''q1'' \<in> dom (states (deref (fst opsAutomaton) (fsm main_builder)))"
    by (simp add: opsAutomaton_eq ops_heap_fsm)
  have a: "''b'' \<in> dom (alphabet (deref (fst opsAutomaton) (fsm main_builder)))"
    by (simp add: opsAutomaton_eq ops_heap_fsm)
  have t: "transitions (deref (fst opsAutomaton) (fsm main_builder))
        \<lparr>State = ''q1'', Symbol = ''b''\<rparr> = Some ''q0''"
    by (simp add: opsAutomaton_eq ops_heap_fsm)
  show ?thesis
    using step_total_after_Build [OF reachable_ops ops_orders b s a]
      reachable_ops ops_orders b s a t
    by blast
qed

section \<open>The automaton after Build\<close>

subsection \<open>The automaton's methods leave the structure alone\<close>

lemma structural_cursor [simp]: "structural (f\<lparr>currentState := c\<rparr>) = structural f"
  by (simp add: structural_def)

lemma structural_Reset: "structural (deref (Reset p h) p) = structural (deref h p)"
  by (simp add: Reset_def)

lemma structural_step: "structural (deref (fst (step p a h)) p) = structural (deref h p)"
proof -
  obtain c where "fst (step p a h) = modify p (\<lambda>f. f\<lparr>currentState := c\<rparr>) h"
    using step_cursor by blast
  then show ?thesis by simp
qed

lemma structural_ProcessString:
  "structural (deref (fst (ProcessString p w h)) p) = structural (deref h p)"
proof -
  obtain c where "fst (ProcessSymbols p (range_string w) h)
      = modify p (\<lambda>f. f\<lparr>currentState := c\<rparr>) h"
    using ProcessSymbols_cursor by blast
  then show ?thesis by (simp add: ProcessString_def)
qed

lemma structural_ProcessInput:
  "structural (deref (fst (ProcessInput p w h)) p) = structural (deref h p)"
proof -
  obtain c where "fst (ProcessInput p w h) = modify p (\<lambda>f. f\<lparr>currentState := c\<rparr>) h"
    using ProcessInput_cursor by blast
  then show ?thesis by simp
qed

lemma Build_returns_own:
  assumes "Build ss os b h = (h', Inr p)"
  shows "p = fsm b"
    and "h' = modify (fsm b) (\<lambda>f. f\<lparr>currentState := initialState (deref h (fsm b))\<rparr>) h"
proof -
  have c: "p = fsm b \<and> h' = modify (fsm b) (\<lambda>f. f\<lparr>currentState := initialState f\<rparr>) h"
    using assms by (auto simp: Build_def Let_def split: if_splits option.splits)
  have "modify (fsm b) (\<lambda>f. f\<lparr>currentState := initialState f\<rparr>) h
      = modify (fsm b) (\<lambda>f. f\<lparr>currentState := initialState (deref h (fsm b))\<rparr>) h"
    by (rule modify_cong) simp
  then show "p = fsm b"
    and "h' = modify (fsm b) (\<lambda>f. f\<lparr>currentState := initialState (deref h (fsm b))\<rparr>) h"
    using c by simp_all
qed

text \<open>
  Claim C1, as amended. \<^verbatim>\<open>Build\<close> returns the builder's own FSM, not a copy, so what the
  builder's methods do afterwards is done to the automaton returned. They only add to it:
  after any sequence of \<^verbatim>\<open>AddStates\<close>, \<^verbatim>\<open>AddSymbols\<close>, \<^verbatim>\<open>SetInitialState\<close>,
  \<^verbatim>\<open>AddFinalStates\<close>, \<^verbatim>\<open>AddTransition\<close> and \<^verbatim>\<open>AddTransitions\<close>, every state, symbol, final
  state and transition the automaton had when \<^verbatim>\<open>Build\<close> returned is still there, each
  transition with the same target. The automaton's own methods \<^verbatim>\<open>Reset\<close>, \<^verbatim>\<open>step\<close>,
  \<^verbatim>\<open>ProcessString\<close> and \<^verbatim>\<open>ProcessInput\<close> leave the four fields as they are, in every
  store.
\<close>

theorem builder_ops_after_Build:
  assumes "reachable h b" and "Build ss os b h = (h', Inr p)"
  shows "p = fsm b \<and>
    extends (deref h' p) (deref (apply_ops b ops h') p) \<and>
    structural (deref (Reset p h'') p) = structural (deref h'' p) \<and>
    structural (deref (fst (step p a h'')) p) = structural (deref h'' p) \<and>
    structural (deref (fst (ProcessString p w h'')) p) = structural (deref h'' p) \<and>
    structural (deref (fst (ProcessInput p w h'')) p) = structural (deref h'' p)"
proof -
  have p: "p = fsm b"
    and h': "h' = modify (fsm b) (\<lambda>f. f\<lparr>currentState := initialState (deref h (fsm b))\<rparr>) h"
    using Build_returns_own [OF assms(2)] by auto
  have "fsm_inv (deref h (fsm b))" using assms(1) by (rule reachable_inv)
  then have "fsm_inv (deref h' (fsm b))"
    using grows_cursor [of "deref h (fsm b)" "initialState (deref h (fsm b))"]
    by (simp add: h' grows_def)
  then have "extends (deref h' (fsm b)) (deref (apply_ops b ops h') (fsm b))"
    using grows_apply_ops [of h' b ops] by (simp add: grows_def)
  then show ?thesis
    by (simp add: p structural_Reset structural_step structural_ProcessString
        structural_ProcessInput)
qed

lemma main_Build:
  "Build main_states main_symbols main_builder main_heap
     = (fst moduloThreeAutomaton, Inr (fsm main_builder))"
  by (simp add: moduloThreeAutomaton_eq [unfolded moduloThreeAutomaton_def]
      moduloThreeAutomaton_eq)

theorem builder_ops_after_Build_witness:
  "reachable main_heap main_builder \<and>
   Build main_states main_symbols main_builder main_heap
     = (fst moduloThreeAutomaton, Inr (fsm main_builder)) \<and>
   extends (deref (fst moduloThreeAutomaton) (fsm main_builder))
     (deref (apply_ops main_builder [OpAddStates [''S3''], OpAddTransition ''S3'' ''0'' ''S0'']
        (fst moduloThreeAutomaton)) (fsm main_builder)) \<and>
   structural (deref (fst (ProcessInput (fsm main_builder) ''110'' (fst moduloThreeAutomaton)))
       (fsm main_builder))
     = structural (deref (fst moduloThreeAutomaton) (fsm main_builder))"
  using builder_ops_after_Build [OF reachable_main main_Build,
      where ops = "[OpAddStates [''S3''], OpAddTransition ''S3'' ''0'' ''S0'']"
        and w = "''110''" and h'' = "fst moduloThreeAutomaton" and a = "''0''"]
    reachable_main main_Build
  by blast

text \<open>
  The claim as it was stated fails: after \<^verbatim>\<open>main.go\<close> has built its automaton, a call of
  \<^verbatim>\<open>AddStates("S3")\<close> on the builder puts the state S3 into the state set of that very
  automaton.
\<close>

theorem automaton_not_frozen_counterexample:
  "Build main_states main_symbols main_builder main_heap
     = (fst moduloThreeAutomaton, Inr (fsm main_builder)) \<and>
   \<not> lookup (states (deref (fst moduloThreeAutomaton) (fsm main_builder))) ''S3'' \<and>
   lookup (states (deref (apply_ops main_builder [OpAddStates [''S3'']]
     (fst moduloThreeAutomaton)) (fsm main_builder))) ''S3'' \<and>
   states (deref (apply_ops main_builder [OpAddStates [''S3'']]
       (fst moduloThreeAutomaton)) (fsm main_builder))
     \<noteq> states (deref (fst moduloThreeAutomaton) (fsm main_builder))"
proof -
  have 1: "\<not> lookup (states (deref (fst moduloThreeAutomaton) (fsm main_builder))) ''S3''"
    by (simp add: moduloThreeAutomaton_eq main_heap_fsm lookup_def)
  have 2: "lookup (states (deref (apply_ops main_builder [OpAddStates [''S3'']]
     (fst moduloThreeAutomaton)) (fsm main_builder))) ''S3''"
    by (simp add: moduloThreeAutomaton_eq main_heap_fsm lookup_def)
  have 3: "states (deref (apply_ops main_builder [OpAddStates [''S3'']]
       (fst moduloThreeAutomaton)) (fsm main_builder))
     \<noteq> states (deref (fst moduloThreeAutomaton) (fsm main_builder))"
    using 1 2 by auto
  show ?thesis using main_Build 1 2 3 by blast
qed

section \<open>The modulo-three automaton\<close>

lemma mod3_state_double:
  "mod3_state (2 * n) = (if n mod 3 = 0 then ''S0'' else if n mod 3 = 1 then ''S2'' else ''S1'')"
proof -
  have "(2 * n) mod 3 = (if n mod 3 = 0 then 0 else if n mod 3 = 1 then 2 else 1)"
    by presburger
  then show ?thesis by (simp add: mod3_state_def)
qed

lemma mod3_state_double_plus:
  "mod3_state (2 * n + 1) = (if n mod 3 = 0 then ''S1'' else if n mod 3 = 1 then ''S0'' else ''S2'')"
proof -
  have "(2 * n + 1) mod 3 = (if n mod 3 = 0 then 1 else if n mod 3 = 1 then 0 else 2)"
    by presburger
  then show ?thesis by (simp add: mod3_state_def)
qed

lemma moduloThree_step_zero:
  assumes "moduloThree (deref h p)"
  shows "step p ''0'' (modify p (\<lambda>f. f\<lparr>currentState := mod3_state n\<rparr>) h)
    = (modify p (\<lambda>f. f\<lparr>currentState := mod3_state (2 * n)\<rparr>) h, None)"
  using assms
  by (subst mod3_state_double) (simp add: step_def moduloThree_def lookup_def mod3_state_def)

lemma moduloThree_step_one:
  assumes "moduloThree (deref h p)"
  shows "step p ''1'' (modify p (\<lambda>f. f\<lparr>currentState := mod3_state n\<rparr>) h)
    = (modify p (\<lambda>f. f\<lparr>currentState := mod3_state (2 * n + 1)\<rparr>) h, None)"
  using assms
  by (subst mod3_state_double_plus) (simp add: step_def moduloThree_def lookup_def mod3_state_def)

lemma moduloThree_step:
  assumes "moduloThree (deref h p)" and "c = CHR ''0'' \<or> c = CHR ''1''"
  shows "step p [c] (modify p (\<lambda>f. f\<lparr>currentState := mod3_state n\<rparr>) h)
    = (modify p (\<lambda>f. f\<lparr>currentState := mod3_state (2 * n + (if c = CHR ''1'' then 1 else 0))\<rparr>) h,
       None)"
proof -
  have 0: "c = CHR ''0'' \<Longrightarrow> ?thesis"
    using moduloThree_step_zero [OF assms(1), of n] by simp
  have 1: "c = CHR ''1'' \<Longrightarrow> ?thesis"
    using moduloThree_step_one [OF assms(1), of n] by simp
  show ?thesis using assms(2) 0 1 by blast
qed

lemma moduloThree_symbols:
  assumes "moduloThree (deref h p)"
  shows "binary w \<Longrightarrow>
    ProcessSymbols p (map (\<lambda>c. [c]) w) (modify p (\<lambda>f. f\<lparr>currentState := mod3_state n\<rparr>) h)
    = (modify p (\<lambda>f. f\<lparr>currentState :=
         mod3_state (foldl (\<lambda>n c. 2 * n + (if c = CHR ''1'' then 1 else 0)) n w)\<rparr>) h, None)"
proof (induction w arbitrary: n)
  case Nil
  then show ?case by simp
next
  case (Cons c w)
  have c: "c = CHR ''0'' \<or> c = CHR ''1''" and w: "binary w"
    using Cons.prems by (auto simp: binary_def)
  show ?case
    using moduloThree_step [OF assms c, of n] Cons.IH [OF w]
    by simp
qed

lemma moduloThree_final:
  "moduloThree f \<Longrightarrow> lookup (finalStates f) (mod3_state n)"
  by (simp add: moduloThree_def lookup_def mod3_state_def)

lemma stateIndex_mod3_state: "stateIndex (mod3_state n) = Some (n mod 3)"
  by (simp add: stateIndex_def mod3_state_def) presburger

lemma moduloThree_ProcessInput:
  assumes "moduloThree (deref h p)" and "binary w"
  shows "ProcessInput p w h
    = (modify p (\<lambda>f. f\<lparr>currentState := mod3_state (binval w)\<rparr>) h, True, None)"
proof -
  have r: "Reset p h = modify p (\<lambda>f. f\<lparr>currentState := mod3_state 0\<rparr>) h"
    using assms(1) by (simp add: Reset_eq moduloThree_def mod3_state_def)
  have s: "range_string w = map (\<lambda>c. [c]) w"
    using assms(2) by (intro range_string_ascii binary_ascii)
  have "ProcessString p w (Reset p h)
    = (modify p (\<lambda>f. f\<lparr>currentState := mod3_state (binval w)\<rparr>) h, None)"
    unfolding ProcessString_def r s binval_def
    using assms by (rule moduloThree_symbols)
  then show ?thesis
    using moduloThree_final [OF assms(1), of "binval w"]
    by (simp add: ProcessInput_def IsFinalState_def)
qed

lemma binary_examples: "binary ''110''" "binary ''1101''" "binary ''1011''"
  by (simp_all add: binary_def)

lemma binval_examples: "binval ''110'' = 6" "binval ''1101'' = 13" "binval ''1011'' = 11"
  by (simp_all add: binval_def)

text \<open>
  Claim C3. Let the automaton have the states S0, S1, S2, the symbols 0 and 1, the initial
  state S0, every state final, and the six transitions of \<^verbatim>\<open>main.go\<close>. For every string
  \<open>w\<close> of the characters 0 and 1, \<^verbatim>\<open>ProcessInput(w)\<close> returns \<^verbatim>\<open>(true, nil)\<close> and leaves the
  cursor on the state whose index is the number \<open>w\<close> denotes in binary, modulo 3. So 110,
  which is 6, ends in S0; 1101, which is 13, ends in S1; and 1011, which is 11, ends in S2.
\<close>

theorem moduloThree_correct:
  assumes "moduloThree (deref h p)"
  shows "(binary w \<longrightarrow>
      stateIndex (CurrentState p (fst (ProcessInput p w h))) = Some (binval w mod 3) \<and>
      snd (ProcessInput p w h) = (True, None)) \<and>
    binval ''110'' = 6 \<and> CurrentState p (fst (ProcessInput p ''110'' h)) = ''S0'' \<and>
    binval ''1101'' = 13 \<and> CurrentState p (fst (ProcessInput p ''1101'' h)) = ''S1'' \<and>
    binval ''1011'' = 11 \<and> CurrentState p (fst (ProcessInput p ''1011'' h)) = ''S2''"
proof -
  have g: "binary w \<longrightarrow>
      stateIndex (CurrentState p (fst (ProcessInput p w h))) = Some (binval w mod 3) \<and>
      snd (ProcessInput p w h) = (True, None)"
    by (simp add: moduloThree_ProcessInput [OF assms] CurrentState_def stateIndex_mod3_state)
  have 1: "CurrentState p (fst (ProcessInput p ''110'' h)) = ''S0''"
    by (simp add: moduloThree_ProcessInput [OF assms binary_examples(1)] CurrentState_def
        binval_examples mod3_state_def)
  have 2: "CurrentState p (fst (ProcessInput p ''1101'' h)) = ''S1''"
    by (simp add: moduloThree_ProcessInput [OF assms binary_examples(2)] CurrentState_def
        binval_examples mod3_state_def)
  have 3: "CurrentState p (fst (ProcessInput p ''1011'' h)) = ''S2''"
    by (simp add: moduloThree_ProcessInput [OF assms binary_examples(3)] CurrentState_def
        binval_examples mod3_state_def)
  show ?thesis using g 1 2 3 binval_examples by blast
qed

theorem moduloThree_correct_witness:
  "moduloThree (deref (fst moduloThreeAutomaton) (fsm main_builder)) \<and>
   binary ''1101'' \<and>
   stateIndex (CurrentState (fsm main_builder)
     (fst (ProcessInput (fsm main_builder) ''1101'' (fst moduloThreeAutomaton)))) = Some 1 \<and>
   CurrentState (fsm main_builder)
     (fst (ProcessInput (fsm main_builder) ''110'' (fst moduloThreeAutomaton))) = ''S0'' \<and>
   CurrentState (fsm main_builder)
     (fst (ProcessInput (fsm main_builder) ''1101'' (fst moduloThreeAutomaton))) = ''S1'' \<and>
   CurrentState (fsm main_builder)
     (fst (ProcessInput (fsm main_builder) ''1011'' (fst moduloThreeAutomaton))) = ''S2''"
proof -
  have "Some (binval ''1101'' mod 3) = Some (1::nat)"
    by (simp add: binval_examples)
  then show ?thesis
    using moduloThree_correct [OF moduloThree_main, of "''1101''"] moduloThree_main
      binary_examples(2)
    by (simp add: stateIndex_def)
qed

end
